theory Spec2Isabelle
  imports Complex_Main
begin

section \<open>Python values used by the backend\<close>

text \<open>
  Strings are lists of code points below 256, so \<open>lower\<close> and \<open>strip\<close> are
  Python's \<open>str.lower\<close> and \<open>str.strip\<close> on that range.
\<close>

definition lower_char :: "char \<Rightarrow> char" where
  "lower_char c =
     (let n = (of_char c :: nat)
      in if (65 \<le> n \<and> n \<le> 90) \<or> (192 \<le> n \<and> n \<le> 222 \<and> n \<noteq> 215)
         then char_of (n + 32) else c)"

definition lower :: "string \<Rightarrow> string" where
  "lower s = map lower_char s"

definition is_space :: "char \<Rightarrow> bool" where
  "is_space c =
     (let n = (of_char c :: nat)
      in (9 \<le> n \<and> n \<le> 13) \<or> (28 \<le> n \<and> n \<le> 32) \<or> n = 133 \<or> n = 160)"

definition strip :: "string \<Rightarrow> string" where
  "strip s = rev (dropWhile is_space (rev (dropWhile is_space s)))"

text \<open>\<open>starts_with p s\<close> is \<open>s.startswith(p)\<close>; \<open>contains p s\<close> is \<open>p in s\<close>.\<close>

fun starts_with :: "string \<Rightarrow> string \<Rightarrow> bool" where
  "starts_with [] s = True"
| "starts_with (p # ps) [] = False"
| "starts_with (p # ps) (c # cs) = (p = c \<and> starts_with ps cs)"

fun contains :: "string \<Rightarrow> string \<Rightarrow> bool" where
  "contains p [] = (p = [])"
| "contains p (c # cs) = (starts_with p (c # cs) \<or> contains p cs)"

text \<open>
  A parsed JSON document, as \<open>json.loads\<close> and \<open>request.json()\<close> return it;
  numbers are the integers.
\<close>

datatype json =
    JNull
  | JBool bool
  | JNum int
  | JStr string
  | JArr "json list"
  | JObj "(string \<times> json) list"

text \<open>Python truthiness of a JSON value (\<open>if v:\<close>, \<open>v or w\<close>).\<close>

fun truthy :: "json \<Rightarrow> bool" where
  "truthy JNull = False"
| "truthy (JBool b) = b"
| "truthy (JNum n) = (n \<noteq> 0)"
| "truthy (JStr s) = (s \<noteq> [])"
| "truthy (JArr xs) = (xs \<noteq> [])"
| "truthy (JObj kvs) = (kvs \<noteq> [])"

text \<open>
  \<open>str(v)\<close>: the identity on a string; the text Python prints for any other value
  is left to the parameter \<open>repr\<close>.
\<close>

fun py_str :: "(json \<Rightarrow> string) \<Rightarrow> json \<Rightarrow> string" where
  "py_str repr (JStr s) = s"
| "py_str repr v = repr v"

section \<open>Platform capability registry and request validation\<close>

text \<open>\<open>PLATFORM_CAPS\<close> of \<open>auto_campaign_service.py\<close>: platform name to content kinds.\<close>

definition PLATFORM_CAPS :: "(string \<times> string list) list" where
  "PLATFORM_CAPS = [(''twitter'', [''tweet'']), (''shorts'', [''shorts_caption'', ''video''])]"

datatype value_error = ValueError string

text \<open>
  \<open>AutoCampaignRequest._normalize_and_validate_platforms\<close>, a \<open>pre=True\<close> validator:
  it receives the raw value of the field.
\<close>

definition normalize_platforms :: "(json \<Rightarrow> string) \<Rightarrow> json list \<Rightarrow> string list" where
  "normalize_platforms repr xs =
     map (\<lambda>p. strip (lower (py_str repr p))) (filter (\<lambda>p. strip (py_str repr p) \<noteq> []) xs)"

definition supported_platforms :: "string list" where
  "supported_platforms = map fst PLATFORM_CAPS"

definition normalize_and_validate_platforms ::
  "(json \<Rightarrow> string) \<Rightarrow> json \<Rightarrow> value_error + string list" where
  "normalize_and_validate_platforms repr v =
     (if \<not> truthy v then Inl (ValueError ''At least one platform must be provided'')
      else case v of
        JArr xs \<Rightarrow>
          (let normalized = normalize_platforms repr xs in
           if normalized = [] then Inl (ValueError ''At least one platform must be provided'')
           else let filtered = filter (\<lambda>p. p \<in> set supported_platforms) normalized in
             if filtered = [] then Inl (ValueError ''Unsupported platforms'')
             else Inr filtered)
      | _ \<Rightarrow> Inl (ValueError ''platforms must be a list''))"

section \<open>Platform abstraction and retry engine (\<open>social_media_service.py\<close>)\<close>

text \<open>The error hierarchy below \<open>SocialMediaError\<close>, and the other exceptions that escape.\<close>

datatype api_reason =
    UnexpectedStatus int
  | NetworkErrorAfter nat
  | RequestFailedLast
  | RequestFailedUnknown

datatype sm_error =
    AuthenticationError
  | AuthorizationError int
  | RateLimitError nat "int option"
  | APIRequestError api_reason
  | RuntimeError string
  | SleepValueError
  | Propagated string

record response =
  status_code :: int
  retry_after_header :: "string option"

text \<open>
  What one call of \<open>self._session.request\<close> does: it returns a response, raises
  \<open>requests.Timeout\<close> or \<open>requests.ConnectionError\<close>, or raises something else.
\<close>

datatype http_outcome =
    Responded response
  | NetworkFailure
  | Raised string

text \<open>
  The collaborators of one \<open>request_with_retry\<close> call: the flag \<open>DEMO_MODE\<close>, the
  outcome of the request issued in each attempt, whether the n-th call of the abstract
  \<open>authenticate()\<close> returns, and Python's \<open>int(str)\<close> (\<open>None\<close> for \<open>ValueError\<close>).
\<close>

record http_env =
  DEMO_MODE :: bool
  session_request :: "nat \<Rightarrow> http_outcome"
  authenticate_returns :: "nat \<Rightarrow> bool"
  py_int :: "string \<Rightarrow> int option"

text \<open>What the call did: requests issued, \<open>authenticate()\<close> calls, \<open>time.sleep\<close> arguments.\<close>

record trace =
  requests_made :: nat
  auth_calls :: nat
  sleeps :: "rat list"

definition trace0 :: trace where
  "trace0 = \<lparr>requests_made = 0, auth_calls = 0, sleeps = []\<rparr>"

definition parse_retry_after_seconds :: "http_env \<Rightarrow> response \<Rightarrow> int option" where
  "parse_retry_after_seconds env r =
     (case retry_after_header r of
        None \<Rightarrow> None
      | Some header \<Rightarrow> if header = [] then None else py_int env header)"

text \<open>\<open>time.sleep(d)\<close> raises \<open>ValueError\<close> on a negative duration.\<close>

definition sleep_duration :: "int option \<Rightarrow> rat \<Rightarrow> nat \<Rightarrow> rat" where
  "sleep_duration retry_after backoff_seconds attempt =
     (case retry_after of
        Some n \<Rightarrow> if n \<noteq> 0 then of_int n else backoff_seconds * of_nat attempt
      | None \<Rightarrow> backoff_seconds * of_nat attempt)"

text \<open>
  One pass through the body of \<open>for attempt in range(1, max_retries + 1)\<close>: it ends the
  call (\<open>return\<close>, \<open>raise\<close>) or goes on to the next attempt (\<open>continue\<close>).
  \<open>last_exc\<close> records whether a network exception was seen.
\<close>

datatype attempt_result =
    Done "sm_error + response" trace
  | Continue bool trace

definition backoff_sleep :: "rat \<Rightarrow> bool \<Rightarrow> trace \<Rightarrow> attempt_result" where
  "backoff_sleep d last_exc tr =
     (if d < 0 then Done (Inl SleepValueError) tr
      else Continue last_exc (tr\<lparr>sleeps := sleeps tr @ [d]\<rparr>))"

definition attempt_once ::
  "http_env \<Rightarrow> int list \<Rightarrow> int \<Rightarrow> rat \<Rightarrow> nat \<Rightarrow> bool \<Rightarrow> trace \<Rightarrow> attempt_result" where
  "attempt_once env expected_statuses max_retries backoff_seconds attempt last_exc tr =
     (let tr1 = tr\<lparr>requests_made := requests_made tr + 1\<rparr> in
      case session_request env attempt of
        Raised msg \<Rightarrow> Done (Inl (Propagated msg)) tr1
      | NetworkFailure \<Rightarrow>
          if int attempt = max_retries then Done (Inl (APIRequestError (NetworkErrorAfter attempt))) tr1
          else backoff_sleep (backoff_seconds * of_nat attempt) True tr1
      | Responded r \<Rightarrow>
          if status_code r = 429 then
            let retry_after = parse_retry_after_seconds env r in
            if int attempt = max_retries then Done (Inl (RateLimitError attempt retry_after)) tr1
            else backoff_sleep (sleep_duration retry_after backoff_seconds attempt) last_exc tr1
          else if status_code r = 401 \<or> status_code r = 403 then
            if attempt = 1 then
              let tr2 = tr1\<lparr>auth_calls := auth_calls tr1 + 1\<rparr> in
              if authenticate_returns env (auth_calls tr2) then Continue last_exc tr2
              else Done (Inl AuthenticationError) tr2
            else Done (Inl (AuthorizationError (status_code r))) tr1
          else if status_code r \<in> set expected_statuses then Done (Inr r) tr1
          else if 500 \<le> status_code r \<and> status_code r < 600 \<and> int attempt < max_retries then
            backoff_sleep (backoff_seconds * of_nat attempt) last_exc tr1
          else Done (Inl (APIRequestError (UnexpectedStatus (status_code r)))) tr1)"

text \<open>The loop, with the two \<open>raise\<close> statements that follow it.\<close>

function retry_loop ::
  "http_env \<Rightarrow> int list \<Rightarrow> int \<Rightarrow> rat \<Rightarrow> nat \<Rightarrow> bool \<Rightarrow> trace \<Rightarrow> (sm_error + response) \<times> trace" where
  "retry_loop env expected_statuses max_retries backoff_seconds attempt last_exc tr =
     (if \<not> int attempt \<le> max_retries then
        (Inl (APIRequestError (if last_exc then RequestFailedLast else RequestFailedUnknown)), tr)
      else
        case attempt_once env expected_statuses max_retries backoff_seconds attempt last_exc tr of
          Done res tr' \<Rightarrow> (res, tr')
        | Continue last_exc' tr' \<Rightarrow>
            retry_loop env expected_statuses max_retries backoff_seconds (attempt + 1) last_exc' tr')"
  by pat_completeness auto
termination
  by (relation "measure (\<lambda>(env, ex, mr, bo, attempt, le, tr). nat (mr + 1 - int attempt))") auto

declare retry_loop.simps [simp del]

definition request_with_retry ::
  "http_env \<Rightarrow> int list option \<Rightarrow> int \<Rightarrow> rat \<Rightarrow> (sm_error + response) \<times> trace" where
  "request_with_retry env expected_statuses max_retries backoff_seconds =
     (if DEMO_MODE env then (Inl (RuntimeError ''Network requests disabled in demo mode.''), trace0)
      else
        let expected = (case expected_statuses of None \<Rightarrow> [200, 201, 202] | Some xs \<Rightarrow> xs)
        in retry_loop env expected max_retries backoff_seconds 1 False trace0)"

text \<open>An answer with status 401 or 403, and the status of an answer.\<close>

definition auth_failure :: "http_outcome \<Rightarrow> bool" where
  "auth_failure out =
     (case out of Responded r \<Rightarrow> status_code r = 401 \<or> status_code r = 403 | _ \<Rightarrow> False)"

definition status_of :: "http_outcome \<Rightarrow> int" where
  "status_of out = (case out of Responded r \<Rightarrow> status_code r | _ \<Rightarrow> 0)"

subsection \<open>\<open>test_connection\<close> of the three platform classes\<close>

text \<open>
  \<open>TwitterPlatform.test_connection\<close>. \<open>access_token\<close> is the configured secret;
  \<open>None\<close> and the empty secret are falsy.
\<close>

definition secret_present :: "string option \<Rightarrow> bool" where
  "secret_present t = (case t of None \<Rightarrow> False | Some s \<Rightarrow> s \<noteq> [])"

definition twitter_test_connection :: "http_env \<Rightarrow> string option \<Rightarrow> sm_error + bool" where
  "twitter_test_connection env access_token =
     (if DEMO_MODE env then Inr False
      else if \<not> secret_present access_token then Inr False
      else case fst (request_with_retry env (Some [200]) 3 1) of
             Inl e \<Rightarrow> Inl e
           | Inr resp \<Rightarrow> Inr (status_code resp = 200))"

text \<open>
  \<open>RedditPlatform.test_connection\<close>: the client may be missing, \<open>authenticate()\<close> may
  raise and leaves a client otherwise, \<open>user.me()\<close> raises, returns \<open>None\<close> or a user.
\<close>

datatype me_outcome = MeRaises | MeNone | MeUser string

record reddit_env =
  reddit_demo :: bool
  reddit_client_set :: bool
  reddit_authenticate :: "sm_error option"
  reddit_user_me :: me_outcome

definition reddit_try_body :: "reddit_env \<Rightarrow> sm_error + bool" where
  "reddit_try_body env =
     (case (if \<not> reddit_client_set env then reddit_authenticate env else None) of
        Some e \<Rightarrow> Inl e
      | None \<Rightarrow>
          (case reddit_user_me env of
             MeRaises \<Rightarrow> Inl (Propagated ''user.me'')
           | MeNone \<Rightarrow> Inr False
           | MeUser u \<Rightarrow> Inr True))"

definition reddit_test_connection :: "reddit_env \<Rightarrow> sm_error + bool" where
  "reddit_test_connection env =
     (if reddit_demo env then Inr False
      else case reddit_try_body env of Inl e \<Rightarrow> Inr False | Inr b \<Rightarrow> Inr b)"

text \<open>\<open>TwitterOAuth1Platform.test_connection\<close> returns \<open>False\<close> on both paths.\<close>

definition oauth1_test_connection :: "bool \<Rightarrow> sm_error + bool" where
  "oauth1_test_connection demo = (if demo then Inr False else Inr False)"

section \<open>PKCE pair generation (\<open>twitter_integration.py\<close>)\<close>

text \<open>
  Bytes are \<open>char\<close>s (eight bits). \<open>urlsafe_b64encode\<close> is the standard library's
  encoder with the URL-safe alphabet and \<open>=\<close> padding.
\<close>

definition b64url_alphabet :: string where
  "b64url_alphabet = ''ABCDEFGHIJKLMNOPQRSTUVWXYZabcdefghijklmnopqrstuvwxyz0123456789-_''"

definition b64_char :: "nat \<Rightarrow> char" where
  "b64_char n = b64url_alphabet ! (n mod 64)"

fun urlsafe_b64encode :: "char list \<Rightarrow> string" where
  "urlsafe_b64encode [] = []"
| "urlsafe_b64encode [a] =
     (let x = (of_char a :: nat)
      in [b64_char (x div 4), b64_char ((x mod 4) * 16), CHR ''='', CHR ''=''])"
| "urlsafe_b64encode [a, b] =
     (let x = (of_char a :: nat); y = (of_char b :: nat)
      in [b64_char (x div 4), b64_char ((x mod 4) * 16 + y div 16),
          b64_char ((y mod 16) * 4), CHR ''=''])"
| "urlsafe_b64encode (a # b # c # rest) =
     (let x = (of_char a :: nat); y = (of_char b :: nat); z = (of_char c :: nat)
      in [b64_char (x div 4), b64_char ((x mod 4) * 16 + y div 16),
          b64_char ((y mod 16) * 4 + z div 64), b64_char (z mod 64)]
         @ urlsafe_b64encode rest)"

text \<open>\<open>s.rstrip('=')\<close>.\<close>

definition rstrip_eq :: "string \<Rightarrow> string" where
  "rstrip_eq s = rev (dropWhile (\<lambda>c. c = CHR ''='') (rev s))"

text \<open>
  \<open>generate_pkce_pair\<close>. \<open>token_bytes\<close> is the value \<open>secrets.token_bytes(32)\<close>
  returned and \<open>sha256\<close> is \<open>hashlib.sha256(...).digest()\<close>; the verifier is ASCII, so
  its UTF-8 encoding is the verifier itself.
\<close>

definition generate_pkce_pair :: "(char list \<Rightarrow> char list) \<Rightarrow> char list \<Rightarrow> string \<times> string" where
  "generate_pkce_pair sha256 token_bytes =
     (let verifier = rstrip_eq (urlsafe_b64encode token_bytes);
          challenge = rstrip_eq (urlsafe_b64encode (sha256 verifier))
      in (verifier, challenge))"

section \<open>OAuth callbacks and the in-memory session stores (\<open>main.py\<close>)\<close>

record TwitterAuthState =
  code_verifier :: string
  code_challenge :: string
  state :: string

record TwitterOAuth1State =
  oauth_token :: string
  request_token_secret :: string

datatype http_exception = HTTPException nat string

record TwitterCallbackResponse =
  message :: string
  account_id :: int
  platform :: string
  account_name :: string

datatype 'a outcome = Raises string | Returns 'a

text \<open>
  What the callback meets outside the process: \<open>load_platform_config_from_env\<close> (the
  configured \<open>webhook_url\<close>, or an exception), the token endpoint, the user-info
  endpoint (status and account name), and the stripped statement that persists the account.
\<close>

record callback_env =
  cb_demo :: bool
  cb_load_config :: "string option outcome"
  cb_token_post :: "(int \<times> string) outcome"
  cb_user_info :: "(int \<times> string) outcome"
  cb_persist :: "TwitterCallbackResponse outcome"

text \<open>External effects of a callback, in the order they happen.\<close>

datatype cb_event =
    TokenPost string string
  | UserInfoGet string
  | PersistAccount string

text \<open>
  \<open>TwitterPlatform.exchange_code_for_token\<close>: the new access token, or the exception.
\<close>

definition exchange_code_for_token ::
  "callback_env \<Rightarrow> string option \<Rightarrow> string \<Rightarrow> string \<Rightarrow> string option \<Rightarrow> (string + string) \<times> cb_event list" where
  "exchange_code_for_token env config_webhook_url code verifier redirect_uri =
     (if cb_demo env then (Inl ''External auth disabled in demo.'', [])
      else
        let redirect = (case redirect_uri of
                          Some r \<Rightarrow> if r \<noteq> [] then r
                                    else (case config_webhook_url of Some w \<Rightarrow> w | None \<Rightarrow> [])
                        | None \<Rightarrow> (case config_webhook_url of Some w \<Rightarrow> w | None \<Rightarrow> []))
        in if redirect = [] then (Inl ''redirect_uri is required'', [])
           else case cb_token_post env of
                  Raises msg \<Rightarrow> (Inl msg, [TokenPost code verifier])
                | Returns (status, access_token) \<Rightarrow>
                    if status \<noteq> 200 then (Inl ''Token exchange failed'', [TokenPost code verifier])
                    else (Inr access_token, [TokenPost code verifier]))"

text \<open>
  \<open>twitter_oauth_callback(code, state)\<close> on the store \<open>_twitter_oauth_sessions\<close>;
  the result comes with the store afterwards and the effects performed.
\<close>

definition twitter_oauth_callback ::
  "callback_env \<Rightarrow> string \<Rightarrow> string \<Rightarrow> (string \<rightharpoonup> TwitterAuthState)
     \<Rightarrow> (http_exception + TwitterCallbackResponse) \<times> (string \<rightharpoonup> TwitterAuthState) \<times> cb_event list" where
  "twitter_oauth_callback env code st sessions =
     (case sessions st of
        None \<Rightarrow> (Inl (HTTPException 400 ''Invalid or expired state''), sessions, [])
      | Some auth_state \<Rightarrow>
          let sessions' = sessions(st := None) in
          (case cb_load_config env of
            Raises msg \<Rightarrow> (Inl (HTTPException 500 msg), sessions', [])
          | Returns webhook_url \<Rightarrow>
              (case exchange_code_for_token env webhook_url code (code_verifier auth_state) webhook_url of
                 (Inl msg, evs) \<Rightarrow> (Inl (HTTPException 500 msg), sessions', evs)
               | (Inr access_token, evs) \<Rightarrow>
                   (case cb_user_info env of
                      Raises msg \<Rightarrow>
                        (Inl (HTTPException 500 msg), sessions', evs @ [UserInfoGet access_token])
                    | Returns (status, name) \<Rightarrow>
                        if status \<noteq> 200 then
                          (Inl (HTTPException 500 ''Failed to fetch user info''), sessions',
                           evs @ [UserInfoGet access_token])
                        else
                          (case cb_persist env of
                             Raises msg \<Rightarrow>
                               (Inl (HTTPException 500 msg), sessions',
                                evs @ [UserInfoGet access_token, PersistAccount name])
                           | Returns row \<Rightarrow>
                               (Inr \<lparr>message = ''Twitter account connected successfully'',
                                     account_id = account_id row, platform = platform row,
                                     account_name = account_name row\<rparr>,
                                sessions', evs @ [UserInfoGet access_token, PersistAccount name]))))))"

text \<open>
  \<open>TwitterOAuth1Platform.exchange_verifier_for_access_token\<close> raises on both of its
  paths, so \<open>twitter_oauth1_callback\<close> never gets past it.
\<close>

definition exchange_verifier_for_access_token :: "bool \<Rightarrow> string" where
  "exchange_verifier_for_access_token demo =
     (if demo then ''External auth disabled in demo.'' else ''OAuth 1.0a not fully implemented'')"

definition twitter_oauth1_callback ::
  "callback_env \<Rightarrow> string \<Rightarrow> string \<Rightarrow> (string \<rightharpoonup> TwitterOAuth1State)
     \<Rightarrow> (http_exception + TwitterCallbackResponse) \<times> (string \<rightharpoonup> TwitterOAuth1State)" where
  "twitter_oauth1_callback env token verifier sessions =
     (case sessions token of
        None \<Rightarrow> (Inl (HTTPException 400 ''Invalid or expired oauth_token''), sessions)
      | Some auth_state \<Rightarrow>
          let sessions' = sessions(token := None) in
          (case cb_load_config env of
            Raises msg \<Rightarrow> (Inl (HTTPException 500 msg), sessions')
          | Returns webhook_url \<Rightarrow>
              (Inl (HTTPException 500 (exchange_verifier_for_access_token (cb_demo env))), sessions')))"

text \<open>
  What touches the store \<open>_twitter_oauth_sessions\<close>: a callback, and the routes that issue
  an authorization URL, which store the new session under its state token.
\<close>

datatype session_op =
    Callback callback_env string string
  | Issue TwitterAuthState

definition issue_session ::
  "TwitterAuthState \<Rightarrow> (string \<rightharpoonup> TwitterAuthState) \<Rightarrow> (string \<rightharpoonup> TwitterAuthState)" where
  "issue_session auth_state sessions = sessions(state auth_state \<mapsto> auth_state)"

fun run_session_ops ::
  "session_op list \<Rightarrow> (string \<rightharpoonup> TwitterAuthState) \<Rightarrow> (string \<rightharpoonup> TwitterAuthState)" where
  "run_session_ops [] sessions = sessions"
| "run_session_ops (Callback env code st # rest) sessions =
     run_session_ops rest (fst (snd (twitter_oauth_callback env code st sessions)))"
| "run_session_ops (Issue auth_state # rest) sessions =
     run_session_ops rest (issue_session auth_state sessions)"

fun issued_states :: "session_op list \<Rightarrow> string list" where
  "issued_states [] = []"
| "issued_states (Callback env code st # rest) = issued_states rest"
| "issued_states (Issue auth_state # rest) = state auth_state # issued_states rest"

section \<open>Artifact mirroring (\<open>storage_service.py\<close>)\<close>

text \<open>
  What \<open>requests.get(url, stream=True)\<close>, \<open>raise_for_status\<close> and
  \<open>upload_fileobj\<close> do in one \<open>download_to_s3\<close> call.
\<close>

datatype transfer = FetchFails string | UploadFails string | TransferOk

record storage_env =
  st_demo :: bool
  st_bucket :: string
  st_prefix :: string
  st_stamp :: "nat \<Rightarrow> string"
  st_transfer :: "json \<Rightarrow> nat \<Rightarrow> transfer"

record s3_result =
  bucket :: string
  key :: string
  s3_url :: string

text \<open>
  \<open>_generate_key\<close>: \<open>st_stamp n\<close> is the date path and the \<open>uuid4\<close> hex of the
  n-th call.
\<close>

definition generate_key :: "storage_env \<Rightarrow> string \<Rightarrow> string \<Rightarrow> nat \<Rightarrow> string" where
  "generate_key senv subdir ext n =
     st_prefix senv @ ''/'' @ subdir @ ''/'' @ st_stamp senv n @ ''.'' @ ext"

section \<open>Video jobs, assets and the HeyGen webhook (\<open>main.py\<close>)\<close>

record video_job =
  job_status :: string
  job_asset_id :: "nat option"
  job_error :: "string option"
  job_source_url :: "json option"

record asset =
  asset_id :: nat
  asset_url :: string

text \<open>
  The persisted jobs (keyed by the provider's video id as the payload carries it) and
  assets, and what the storage service did: calls, URLs fetched, keys uploaded.
\<close>

record world =
  videos :: "json \<rightharpoonup> video_job"
  assets :: "asset list"
  storage_calls :: nat
  fetched :: "json list"
  uploaded :: "string list"

text \<open>\<open>StorageService.download_to_s3(url, kind, ext)\<close>.\<close>

definition download_to_s3 ::
  "storage_env \<Rightarrow> json \<Rightarrow> string \<Rightarrow> string \<Rightarrow> world \<Rightarrow> s3_result outcome \<times> world" where
  "download_to_s3 senv url kind ext w =
     (let n = storage_calls w;
          k = generate_key senv kind ext n;
          w1 = w\<lparr>storage_calls := n + 1\<rparr>
      in if st_demo senv then
           (Returns \<lparr>bucket = ''REDACTED_BUCKET'', key = k, s3_url = ''s3://REDACTED_BUCKET/'' @ k\<rparr>, w1)
         else
           let w2 = w1\<lparr>fetched := fetched w1 @ [url]\<rparr> in
           case st_transfer senv url n of
             FetchFails msg \<Rightarrow> (Raises msg, w2)
           | UploadFails msg \<Rightarrow> (Raises msg, w2)
           | TransferOk \<Rightarrow>
               (Returns \<lparr>bucket = st_bucket senv, key = k,
                         s3_url = ''s3://'' @ st_bucket senv @ ''/'' @ k\<rparr>,
                w2\<lparr>uploaded := uploaded w2 @ [k]\<rparr>))"

text \<open>
  Modelled from the spec: the SQL text of the statements in \<open>handle_heygen_webhook\<close> is
  missing from the source. The asset insert creates an asset record referencing the new
  location and returns its id.
\<close>

definition insert_asset :: "string \<Rightarrow> world \<Rightarrow> nat \<times> world" where
  "insert_asset location w =
     (let i = Suc (length (assets w))
      in (i, w\<lparr>assets := assets w @ [\<lparr>asset_id = i, asset_url = location\<rparr>]\<rparr>))"

text \<open>
  Modelled from the spec: the missing \<open>UPDATE\<close> statements change the job with the given
  provider job id and no other row; without such a job they change nothing.
\<close>

definition update_video :: "json \<Rightarrow> (video_job \<Rightarrow> video_job) \<Rightarrow> world \<Rightarrow> world" where
  "update_video vid f w =
     (case videos w vid of
        None \<Rightarrow> w
      | Some j \<Rightarrow> w\<lparr>videos := (videos w)(vid \<mapsto> f j)\<rparr>)"

text \<open>
  Modelled from the spec: what the three missing \<open>UPDATE\<close> statements set. On
  completion the job is marked \<open>completed\<close> and linked to the new asset; on a failed
  mirror step or a missing URL it is marked \<open>failed\<close>, with the error text and the source
  URL in the first case; otherwise only the status is written.
\<close>

definition mark_completed :: "json \<Rightarrow> nat \<Rightarrow> world \<Rightarrow> world" where
  "mark_completed vid aid w =
     update_video vid (\<lambda>j. j\<lparr>job_status := ''completed'', job_asset_id := Some aid\<rparr>) w"

definition mark_failed :: "json \<Rightarrow> string option \<Rightarrow> json option \<Rightarrow> world \<Rightarrow> world" where
  "mark_failed vid err url w =
     update_video vid (\<lambda>j. j\<lparr>job_status := ''failed'', job_error := err, job_source_url := url\<rparr>) w"

definition set_status :: "json \<Rightarrow> string \<Rightarrow> world \<Rightarrow> world" where
  "set_status vid s w = update_video vid (\<lambda>j. j\<lparr>job_status := s\<rparr>) w"

text \<open>The request as the handler reads it; \<open>wr_json = None\<close> is a body that is not JSON.\<close>

record webhook_request =
  wr_body :: string
  wr_signature :: "string option"
  wr_json :: "json option"

record webhook_env =
  we_secret :: "string option"
  we_hmac_sha256_hex :: "string \<Rightarrow> string \<Rightarrow> string"
  we_repr :: "json \<Rightarrow> string"
  we_storage :: storage_env

datatype webhook_response =
    ErrorBody string
  | Processed json string

definition verify_webhook_signature ::
  "(string \<Rightarrow> string \<Rightarrow> string) \<Rightarrow> string \<Rightarrow> string \<Rightarrow> string \<Rightarrow> bool" where
  "verify_webhook_signature hmac_hex payload signature secret = (signature = hmac_hex secret payload)"

text \<open>
  The check at the head of the handler: without a configured secret every request passes;
  with one, the signature header must be present and match.
\<close>

definition signature_accepted :: "webhook_env \<Rightarrow> webhook_request \<Rightarrow> bool" where
  "signature_accepted env req =
     (case we_secret env of
        None \<Rightarrow> True
      | Some secret \<Rightarrow>
          if secret = [] then True
          else (case wr_signature req of
                  None \<Rightarrow> False
                | Some signature \<Rightarrow>
                    signature \<noteq> [] \<and>
                    verify_webhook_signature (we_hmac_sha256_hex env) (wr_body req) signature secret))"

text \<open>\<open>d.get(k, default)\<close>; on a value that is not a dict it raises \<open>AttributeError\<close>.\<close>

definition dict_get :: "json \<Rightarrow> string \<Rightarrow> json \<Rightarrow> json outcome" where
  "dict_get d k dflt =
     (case d of
        JObj kvs \<Rightarrow> Returns (case map_of kvs k of None \<Rightarrow> dflt | Some v \<Rightarrow> v)
      | _ \<Rightarrow> Raises ''AttributeError'')"

definition obind :: "'a outcome \<Rightarrow> ('a \<Rightarrow> 'b outcome) \<Rightarrow> 'b outcome" where
  "obind m f = (case m of Raises msg \<Rightarrow> Raises msg | Returns x \<Rightarrow> f x)"

text \<open>\<open>v.lower()\<close> on a payload value: only a string has the method.\<close>

definition json_lower :: "json \<Rightarrow> string outcome" where
  "json_lower v = (case v of JStr s \<Rightarrow> Returns (lower s) | _ \<Rightarrow> Raises ''AttributeError'')"

text \<open>The status derived from the event type when the payload gives none.\<close>

definition derive_status :: "(json \<Rightarrow> string) \<Rightarrow> string \<Rightarrow> json \<Rightarrow> string" where
  "derive_status repr status_str event_type =
     (if status_str = [] \<and> truthy event_type then
        let et = lower (py_str repr event_type) in
        if contains ''complete'' et \<or> contains ''succeed'' et \<or> contains ''finish'' et then ''completed''
        else if contains ''fail'' et \<or> contains ''error'' et then ''failed''
        else if contains ''process'' et \<or> contains ''pending'' et then ''processing''
        else status_str
      else status_str)"

definition status_map :: "(string \<times> string) list" where
  "status_map =
     [(''completed'', ''completed''), (''success'', ''completed''), (''succeeded'', ''completed''),
      (''finished'', ''completed''), (''failed'', ''failed''), (''error'', ''failed''),
      (''processing'', ''processing''), (''pending'', ''processing'')]"

text \<open>\<open>status_map.get(status, status or "processing")\<close>.\<close>

definition db_status_of :: "string \<Rightarrow> string" where
  "db_status_of status_str =
     (case map_of status_map status_str of
        Some v \<Rightarrow> v
      | None \<Rightarrow> if status_str \<noteq> [] then status_str else ''processing'')"

text \<open>
  \<open>payload.get("video_url") or payload.get("url") or payload.get("result", {}).get("url")\<close>,
  evaluated left to right and only as far as needed.
\<close>

definition resolve_video_url :: "json \<Rightarrow> json outcome" where
  "resolve_video_url payload =
     obind (dict_get payload ''video_url'' JNull) (\<lambda>a.
       if truthy a then Returns a
       else obind (dict_get payload ''url'' JNull) (\<lambda>b.
         if truthy b then Returns b
         else obind (dict_get payload ''result'' (JObj [])) (\<lambda>r. dict_get r ''url'' JNull)))"

text \<open>
  \<open>event_type\<close>, \<open>video_id\<close> and the lower-cased \<open>status\<close> as the handler reads
  them from the payload.
\<close>

definition webhook_fields :: "json \<Rightarrow> (json \<times> json \<times> string) outcome" where
  "webhook_fields payload =
     obind (dict_get payload ''type'' JNull) (\<lambda>ty.
     obind (dict_get payload ''event_type'' ty) (\<lambda>event_type.
     obind (dict_get payload ''video_id'' JNull) (\<lambda>video_id.
     obind (obind (dict_get payload ''status'' (JStr [])) json_lower) (\<lambda>status_str.
       Returns (event_type, video_id, status_str)))))"

text \<open>The branch of the handler that writes the video record.\<close>

definition reconcile :: "webhook_env \<Rightarrow> json \<Rightarrow> json \<Rightarrow> string \<Rightarrow> world \<Rightarrow> unit outcome \<times> world" where
  "reconcile env payload video_id db_status w =
     (if db_status = ''completed'' then
        case resolve_video_url payload of
          Raises msg \<Rightarrow> (Raises msg, w)
        | Returns video_url \<Rightarrow>
            if truthy video_url then
              case download_to_s3 (we_storage env) video_url ''videos'' ''mp4'' w of
                (Returns r, w1) \<Rightarrow>
                  let location = (if s3_url r \<noteq> [] then s3_url r
                                  else ''s3://'' @ bucket r @ ''/'' @ key r);
                      (aid, w2) = insert_asset location w1
                  in (Returns (), mark_completed video_id aid w2)
              | (Raises msg, w1) \<Rightarrow> (Returns (), mark_failed video_id (Some msg) (Some video_url) w1)
            else (Returns (), mark_failed video_id None None w)
      else (Returns (), set_status video_id db_status w))"

text \<open>
  \<open>handle_heygen_webhook\<close>. Any exception that is not an \<open>HTTPException\<close> leaves as
  status 500; the only one modelled is raised before anything is written.
\<close>

definition handle_heygen_webhook ::
  "webhook_env \<Rightarrow> webhook_request \<Rightarrow> world \<Rightarrow> (http_exception + webhook_response) \<times> world" where
  "handle_heygen_webhook env req w =
     (if \<not> signature_accepted env req
      then (Inl (HTTPException 401 ''Invalid webhook signature''), w)
      else case wr_json req of
        None \<Rightarrow> (Inl (HTTPException 400 ''Invalid JSON payload''), w)
      | Some payload \<Rightarrow>
          (case webhook_fields payload of
             Raises msg \<Rightarrow> (Inl (HTTPException 500 msg), w)
           | Returns (event_type, video_id, status_str) \<Rightarrow>
               if \<not> truthy video_id then (Inr (ErrorBody ''No video_id provided''), w)
               else
                 let db_status = db_status_of (derive_status (we_repr env) status_str event_type) in
                 (case reconcile env payload video_id db_status w of
                   (Raises msg, w1) \<Rightarrow> (Inl (HTTPException 500 msg), w1)
                 | (Returns u, w1) \<Rightarrow> (Inr (Processed video_id db_status), w1))))"

section \<open>Campaign assembly (\<open>main.py\<close>, \<open>auto_campaign_service.py\<close>, \<open>ai_service.py\<close>)\<close>

text \<open>A table row: table name, primary key, column values.\<close>

datatype cell = Null | Text string | Ref int

datatype row = Row string int "cell list"

type_synonym rows = "row list"

text \<open>
  Modelled from the spec: \<open>get_db_connection\<close> is not in the source. The connection is the
  transactional collaborator of the spec: statements act on the connection's own view,
  \<open>commit\<close> publishes it, \<open>rollback\<close> and \<open>close\<close> drop what is not committed.
  \<open>committed\<close> is what every other connection observes.
\<close>

record connection =
  committed :: rows
  working :: rows

definition commit :: "connection \<Rightarrow> connection" where
  "commit c = c\<lparr>committed := working c\<rparr>"

definition close_conn :: "connection \<Rightarrow> connection" where
  "close_conn c = c\<lparr>working := committed c\<rparr>"

type_synonym 'a stmt = "rows \<Rightarrow> ('a \<times> rows) outcome"

text \<open>
  The statements and calls made during assembly. The SQL text of the three inline inserts
  and of \<open>create_offer\<close> is missing from the source, and the helpers of the service module
  receive the connection and do not commit, so each is a statement on the connection's view
  that returns or raises. \<open>create_offer\<close> runs on its own connection and commits.
\<close>

record data_layer =
  insert_persona :: "string \<Rightarrow> int stmt"
  insert_pain_point :: "string \<Rightarrow> int stmt"
  insert_script :: "string \<Rightarrow> int stmt"
  insert_campaign :: "string \<Rightarrow> string \<Rightarrow> int \<Rightarrow> string \<Rightarrow> int stmt"
  update_campaign_core :: "int \<Rightarrow> int \<Rightarrow> int \<Rightarrow> int \<Rightarrow> int \<Rightarrow> string option \<Rightarrow> unit stmt"
  attach_platform :: "int \<Rightarrow> string \<Rightarrow> bool \<Rightarrow> unit stmt"
  create_content_tweet :: "int \<Rightarrow> string \<Rightarrow> string \<Rightarrow> int stmt"
  create_content_shorts_caption :: "int \<Rightarrow> string \<Rightarrow> string \<Rightarrow> int stmt"
  create_content_shorts_video :: "int \<Rightarrow> int option \<Rightarrow> string \<Rightarrow> int stmt"
  create_offer :: "string \<Rightarrow> string \<Rightarrow> string \<Rightarrow> row stmt"
  commit_ok :: bool
  cursor_close_ok :: bool
  rollback_ok :: bool
  bedrock_pain_point :: "string \<Rightarrow> string \<Rightarrow> string option"
  generate_script_from_pain_point :: "string \<Rightarrow> string \<Rightarrow> string outcome"

text \<open>\<open>conn.rollback()\<close> inside \<open>try ... except Exception: pass\<close>.\<close>

definition rollback :: "data_layer \<Rightarrow> connection \<Rightarrow> connection" where
  "rollback dl c = (if rollback_ok dl then c\<lparr>working := committed c\<rparr> else c)"

text \<open>The helpers of \<open>auto_campaign_service.py\<close>, the module \<open>main.py\<close> imports.\<close>

definition mock_insert_campaign :: "string \<Rightarrow> string \<Rightarrow> int \<Rightarrow> string \<Rightarrow> int stmt" where
  "mock_insert_campaign name description persona_id status rs = Returns (1, rs)"

definition mock_update_campaign_core ::
  "int \<Rightarrow> int \<Rightarrow> int \<Rightarrow> int \<Rightarrow> int \<Rightarrow> string option \<Rightarrow> unit stmt" where
  "mock_update_campaign_core campaign_id offer_id persona_id pain_point_id primary_script_id cta rs =
     Returns ((), rs)"

definition mock_attach_platform :: "int \<Rightarrow> string \<Rightarrow> bool \<Rightarrow> unit stmt" where
  "mock_attach_platform campaign_id plat enabled rs = Returns ((), rs)"

definition mock_create_content :: "int \<Rightarrow> string \<Rightarrow> string \<Rightarrow> int stmt" where
  "mock_create_content campaign_id text source rs = Returns (1, rs)"

definition mock_create_content_shorts_video :: "int \<Rightarrow> int option \<Rightarrow> string \<Rightarrow> int stmt" where
  "mock_create_content_shorts_video campaign_id asset source rs = Returns (1, rs)"

text \<open>
  Modelled from the spec: the statements of \<open>auto_campaign_service_with_db.py\<close> and the
  inline inserts have no SQL text in the source. Each insert adds one row to its table and
  returns the new key.
\<close>

definition next_id :: "rows \<Rightarrow> int" where
  "next_id rs = int (length rs) + 1"

definition insert_row :: "string \<Rightarrow> cell list \<Rightarrow> int stmt" where
  "insert_row table cols rs = (let i = next_id rs in Returns (i, rs @ [Row table i cols]))"

text \<open>The steps of the transaction, to name the one that raised.\<close>

datatype step =
    PersonaInsert
  | PainPointInsert
  | ScriptInsert
  | CampaignInsert
  | CampaignUpdate
  | PlatformAttach string
  | TweetContent
  | CaptionContent
  | VideoContent
  | Commit
  | CursorClose

datatype txn_error = StepFailed step string

type_synonym 'a txn = "rows \<Rightarrow> (txn_error + 'a) \<times> rows"

definition run_stmt :: "step \<Rightarrow> 'a stmt \<Rightarrow> 'a txn" where
  "run_stmt s stmt rs =
     (case stmt rs of
        Raises msg \<Rightarrow> (Inl (StepFailed s msg), rs)
      | Returns (x, rs') \<Rightarrow> (Inr x, rs'))"

definition tbind :: "'a txn \<Rightarrow> ('a \<Rightarrow> 'b txn) \<Rightarrow> 'b txn" where
  "tbind m f rs = (case m rs of (Inl e, rs') \<Rightarrow> (Inl e, rs') | (Inr x, rs') \<Rightarrow> f x rs')"

definition treturn :: "'a \<Rightarrow> 'a txn" where
  "treturn x rs = (Inr x, rs)"

record AutoCampaignRequest =
  rq_offer_id :: "int option"
  rq_offer_title :: "string option"
  rq_offer_description :: "string option"
  rq_cta_link :: "string option"
  rq_platforms :: "string list"
  rq_generate_heygen_video :: bool
  rq_persona :: "string option"
  rq_pain_point :: "string option"
  rq_override_script_text :: "string option"
  rq_override_tweet_text :: "string option"
  rq_override_video_caption :: "string option"

record AutoCampaignResponse =
  r_campaign_id :: int
  r_offer_id :: int
  r_persona_id :: int
  r_pain_point_id :: int
  r_script_id :: int
  r_content_ids :: "int list"

text \<open>\<open>x or None\<close>, \<open>x or d\<close> and \<open>if x\<close> on an optional string.\<close>

definition nonempty :: "string option \<Rightarrow> string option" where
  "nonempty x = (case x of Some s \<Rightarrow> if s \<noteq> [] then Some s else None | None \<Rightarrow> None)"

definition or_else :: "string option \<Rightarrow> string \<Rightarrow> string" where
  "or_else x d = (case nonempty x of Some s \<Rightarrow> s | None \<Rightarrow> d)"

text \<open>\<open>AIService.generate_tweet_text\<close> and \<open>AIService.generate_shorts_caption\<close>.\<close>

definition generate_tweet_text :: "string \<Rightarrow> string option \<Rightarrow> string" where
  "generate_tweet_text seed_text cta =
     (let base = strip seed_text;
          text = (case nonempty cta of
                    Some l \<Rightarrow> strip (take 240 base @ '' '' @ l)
                  | None \<Rightarrow> take 280 base)
      in take 280 text)"

definition generate_shorts_caption :: "string \<Rightarrow> string option \<Rightarrow> string" where
  "generate_shorts_caption script_text cta =
     (let base = strip script_text;
          caption = strip (take 160 base);
          caption' = (case nonempty cta of
                        Some l \<Rightarrow> strip (caption @ [CHR 0x0A] @ l)
                      | None \<Rightarrow> caption)
      in take 220 caption')"

text \<open>\<open>AIService.generate_pain_point_from_offer\<close>: the model's answer when usable, else the fallback.\<close>

definition generate_pain_point_from_offer :: "data_layer \<Rightarrow> string \<Rightarrow> string \<Rightarrow> string" where
  "generate_pain_point_from_offer dl title description =
     (case nonempty (map_option strip (bedrock_pain_point dl title description)) of
        Some pain \<Rightarrow> pain
      | None \<Rightarrow> ''Struggling to get results from ''
                 @ (if strip title \<noteq> [] then strip title else ''your current marketing''))"

text \<open>\<open>for plat in platforms_norm: svc.attach_platform(conn, campaign_id, plat, True)\<close>.\<close>

fun attach_platforms :: "data_layer \<Rightarrow> int \<Rightarrow> string list \<Rightarrow> unit txn" where
  "attach_platforms dl campaign_id [] = treturn ()"
| "attach_platforms dl campaign_id (plat # rest) =
     tbind (run_stmt (PlatformAttach plat) (attach_platform dl campaign_id plat True))
       (\<lambda>_. attach_platforms dl campaign_id rest)"

text \<open>
  The content rows of the Twitter and Shorts branches; each returns the ids it created.
  \<open>generate_tweet_text\<close> and \<open>generate_shorts_caption\<close> do not raise on strings, so
  the \<open>except\<close> branches with the inline fallback texts are never entered.
\<close>

definition twitter_content ::
  "data_layer \<Rightarrow> AutoCampaignRequest \<Rightarrow> int \<Rightarrow> string \<Rightarrow> string option \<Rightarrow> string list \<Rightarrow> int list txn" where
  "twitter_content dl request campaign_id script_text cta platforms_norm =
     (if ''twitter'' \<in> set platforms_norm then
        let tweet_text = (case nonempty (rq_override_tweet_text request) of
                            Some t \<Rightarrow> t
                          | None \<Rightarrow> generate_tweet_text script_text cta);
            source = (if nonempty (rq_override_tweet_text request) \<noteq> None then ''manual'' else ''ai'')
        in if tweet_text \<noteq> [] then
             tbind (run_stmt TweetContent (create_content_tweet dl campaign_id tweet_text source))
               (\<lambda>cid. treturn [cid])
           else treturn []
      else treturn [])"

definition shorts_content ::
  "data_layer \<Rightarrow> AutoCampaignRequest \<Rightarrow> int \<Rightarrow> string \<Rightarrow> string option \<Rightarrow> string list \<Rightarrow> int list txn" where
  "shorts_content dl request campaign_id script_text cta platforms_norm =
     (if ''shorts'' \<in> set platforms_norm then
        let caption_text = (case nonempty (rq_override_video_caption request) of
                              Some t \<Rightarrow> t
                            | None \<Rightarrow> generate_shorts_caption script_text cta);
            source = (if nonempty (rq_override_video_caption request) \<noteq> None then ''manual'' else ''ai'')
        in tbind (if caption_text \<noteq> [] then
                    tbind (run_stmt CaptionContent
                             (create_content_shorts_caption dl campaign_id caption_text source))
                      (\<lambda>cid. treturn [cid])
                  else treturn [])
             (\<lambda>ids. if rq_generate_heygen_video request then
                       tbind (run_stmt VideoContent
                                (create_content_shorts_video dl campaign_id None ''ai''))
                         (\<lambda>cid. treturn (ids @ [cid]))
                     else treturn ids)
      else treturn [])"

text \<open>The statements between \<open>conn.cursor()\<close> and \<open>conn.commit()\<close>.\<close>

definition assemble ::
  "data_layer \<Rightarrow> AutoCampaignRequest \<Rightarrow> int \<Rightarrow> string \<Rightarrow> string option \<Rightarrow> string \<Rightarrow> string \<Rightarrow> string
     \<Rightarrow> AutoCampaignResponse txn" where
  "assemble dl request offer_id offer_title cta persona_title pain_point_text script_text =
     tbind (run_stmt PersonaInsert (insert_persona dl persona_title)) (\<lambda>persona_id.
     tbind (run_stmt PainPointInsert (insert_pain_point dl pain_point_text)) (\<lambda>pain_point_id.
     tbind (run_stmt ScriptInsert (insert_script dl script_text)) (\<lambda>script_id.
     tbind (run_stmt CampaignInsert
              (insert_campaign dl (''Campaign for '' @ offer_title)
                 (''Campaign generated from offer: '' @ offer_title) persona_id ''draft'')) (\<lambda>campaign_id.
     tbind (run_stmt CampaignUpdate
              (update_campaign_core dl campaign_id offer_id persona_id pain_point_id script_id cta)) (\<lambda>_.
     let platforms_norm = map lower (rq_platforms request) in
     tbind (attach_platforms dl campaign_id platforms_norm) (\<lambda>_.
     tbind (twitter_content dl request campaign_id script_text cta platforms_norm) (\<lambda>ids1.
     tbind (shorts_content dl request campaign_id script_text cta platforms_norm) (\<lambda>ids2.
     treturn \<lparr>r_campaign_id = campaign_id, r_offer_id = offer_id, r_persona_id = persona_id,
              r_pain_point_id = pain_point_id, r_script_id = script_id,
              r_content_ids = ids1 @ ids2\<rparr>))))))))"

text \<open>
  The \<open>try\<close> / \<open>except\<close> / \<open>finally\<close> around the statements: commit and close the cursor
  on success; on any exception roll back, re-raise, and close the connection either way.
\<close>

definition in_transaction :: "data_layer \<Rightarrow> 'a txn \<Rightarrow> rows \<Rightarrow> (txn_error + 'a) \<times> connection" where
  "in_transaction dl body db =
     (let conn = \<lparr>committed = db, working = db\<rparr> in
      case body (working conn) of
        (Inl e, rs) \<Rightarrow> (Inl e, close_conn (rollback dl (conn\<lparr>working := rs\<rparr>)))
      | (Inr x, rs) \<Rightarrow>
          let conn1 = conn\<lparr>working := rs\<rparr> in
          if \<not> commit_ok dl then
            (Inl (StepFailed Commit ''commit''), close_conn (rollback dl conn1))
          else
            let conn2 = commit conn1 in
            if \<not> cursor_close_ok dl then
              (Inl (StepFailed CursorClose ''cursor''), close_conn (rollback dl conn2))
            else (Inr x, close_conn conn2))"

text \<open>
  \<open>SELECT offer_id, title, description, link_url FROM offers WHERE offer_id = %s\<close>: an
  offer row holds title, description and link in this order, the title not \<open>NULL\<close>.
\<close>

definition is_offer :: "int \<Rightarrow> row \<Rightarrow> bool" where
  "is_offer oid r = (case r of Row table i cols \<Rightarrow> table = ''offers'' \<and> i = oid)"

definition col :: "row \<Rightarrow> nat \<Rightarrow> string option" where
  "col r n =
     (case r of Row table i cols \<Rightarrow>
        if n < length cols then (case cols ! n of Text t \<Rightarrow> Some t | _ \<Rightarrow> None) else None)"

definition row_id :: "row \<Rightarrow> int" where
  "row_id r = (case r of Row table i cols \<Rightarrow> i)"

text \<open>The offer, its texts and the call-to-action link, or the \<open>HTTPException\<close> raised.\<close>

definition resolve_offer ::
  "data_layer \<Rightarrow> AutoCampaignRequest \<Rightarrow> rows
     \<Rightarrow> (http_exception + (int \<times> string \<times> string \<times> string option)) \<times> rows" where
  "resolve_offer dl request db =
     (let cta_link_val = nonempty (rq_cta_link request) in
      if rq_offer_id request \<noteq> None \<and> rq_offer_id request \<noteq> Some 0 then
        case find (is_offer (the (rq_offer_id request))) db of
          None \<Rightarrow> (Inl (HTTPException 404 ''Offer not found''), db)
        | Some offer_row \<Rightarrow>
            (Inr (row_id offer_row, or_else (col offer_row 0) [], or_else (col offer_row 1) [],
                  (if cta_link_val = None then nonempty (Some (strip (or_else (col offer_row 2) [])))
                   else cta_link_val)), db)
      else if nonempty (rq_offer_title request) = None \<and> nonempty (rq_offer_description request) = None
      then (Inl (HTTPException 400 ''Provide offer_id or offer_title/offer_description''), db)
      else
        case create_offer dl
               (or_else (rq_offer_title request) (take 200 (or_else (rq_offer_description request) ''Offer'')))
               (or_else (rq_offer_description request) [])
               (or_else (rq_cta_link request) ''https://redacted.example.com'') db of
          Raises msg \<Rightarrow> (Inl (HTTPException 500 msg), db)
        | Returns (offer_created, db') \<Rightarrow>
            (Inr (row_id offer_created, or_else (col offer_created 0) [], or_else (col offer_created 1) [],
                  (if cta_link_val = None then nonempty (Some (strip (or_else (col offer_created 2) [])))
                   else cta_link_val)), db'))"

text \<open>The script: the override, the generated one, or the fallback built from the offer.\<close>

definition resolve_script ::
  "data_layer \<Rightarrow> AutoCampaignRequest \<Rightarrow> string \<Rightarrow> string \<Rightarrow> string option \<Rightarrow> string \<Rightarrow> string \<Rightarrow> string" where
  "resolve_script dl request offer_title offer_description cta pain_point_text persona_title =
     (case nonempty (rq_override_script_text request) of
        Some t \<Rightarrow> t
      | None \<Rightarrow>
          (case generate_script_from_pain_point dl pain_point_text persona_title of
             Returns t \<Rightarrow> t
           | Raises msg \<Rightarrow>
               let base = strip (if offer_description \<noteq> [] then offer_description
                                 else if offer_title \<noteq> [] then offer_title else ''This offer'')
               in strip (base @ [CHR 0x0A, CHR 0x0A] @ ''Learn more''
                         @ (case cta of Some l \<Rightarrow> '': '' @ l | None \<Rightarrow> ''.''))))"

text \<open>\<open>create_auto_campaign\<close>: the response or the \<open>HTTPException\<close>, and the database afterwards.\<close>

definition create_auto_campaign ::
  "data_layer \<Rightarrow> AutoCampaignRequest \<Rightarrow> rows \<Rightarrow> (http_exception + AutoCampaignResponse) \<times> rows" where
  "create_auto_campaign dl request db =
     (case resolve_offer dl request db of
        (Inl ex, db1) \<Rightarrow> (Inl ex, db1)
      | (Inr (offer_id, offer_title, offer_description, cta), db1) \<Rightarrow>
          let persona_title = or_else (rq_persona request) ''general'';
              pain_point_text = (case nonempty (rq_pain_point request) of
                                   Some t \<Rightarrow> t
                                 | None \<Rightarrow> generate_pain_point_from_offer dl offer_title offer_description);
              script_text = resolve_script dl request offer_title offer_description cta
                              pain_point_text persona_title
          in (case in_transaction dl
                    (assemble dl request offer_id offer_title cta persona_title pain_point_text script_text)
                    db1 of
               (Inl (StepFailed s msg), conn) \<Rightarrow> (Inl (HTTPException 500 msg), committed conn)
             | (Inr resp, conn) \<Rightarrow> (Inr resp, committed conn)))"

text \<open>
  The route: the request model is built first, which runs the validator on the
  \<open>platforms\<close> field when the body has one (the default is \<open>["twitter", "shorts"]\<close>), and
  a \<open>ValueError\<close> there is answered with status 422 without calling the handler.
\<close>

definition post_auto_campaign ::
  "data_layer \<Rightarrow> (json \<Rightarrow> string) \<Rightarrow> json option \<Rightarrow> AutoCampaignRequest \<Rightarrow> rows
     \<Rightarrow> (http_exception + AutoCampaignResponse) \<times> rows" where
  "post_auto_campaign dl repr platforms_field request db =
     (case platforms_field of
        None \<Rightarrow> create_auto_campaign dl (request\<lparr>rq_platforms := [''twitter'', ''shorts'']\<rparr>) db
      | Some v \<Rightarrow>
          (case normalize_and_validate_platforms repr v of
             Inl (ValueError msg) \<Rightarrow> (Inl (HTTPException 422 msg), db)
           | Inr ps \<Rightarrow> create_auto_campaign dl (request\<lparr>rq_platforms := ps\<rparr>) db))"

text \<open>
  A data layer whose statements write rows as \<open>insert_row\<close> does; the statements named
  in \<open>fails\<close> raise.
\<close>

definition writing_layer :: "step list \<Rightarrow> data_layer" where
  "writing_layer fails =
     \<lparr>insert_persona = (\<lambda>t rs. if PersonaInsert \<in> set fails then Raises ''persona''
                               else insert_row ''personas'' [Text t] rs),
      insert_pain_point = (\<lambda>t rs. if PainPointInsert \<in> set fails then Raises ''pain point''
                                  else insert_row ''pain_points'' [Text t] rs),
      insert_script = (\<lambda>t rs. if ScriptInsert \<in> set fails then Raises ''script''
                              else insert_row ''scripts'' [Text t] rs),
      insert_campaign = (\<lambda>name description persona_id status rs.
                           if CampaignInsert \<in> set fails then Raises ''campaign''
                           else insert_row ''campaigns'' [Text name, Text description, Ref persona_id, Text status] rs),
      update_campaign_core = (\<lambda>campaign_id offer_id persona_id pain_point_id script_id cta rs.
                                if CampaignUpdate \<in> set fails then Raises ''campaign update''
                                else Returns ((), rs)),
      attach_platform = (\<lambda>campaign_id plat enabled rs.
                           if PlatformAttach plat \<in> set fails then Raises ''platform''
                           else case insert_row ''campaign_platforms'' [Ref campaign_id, Text plat] rs of
                                  Returns (i, rs') \<Rightarrow> Returns ((), rs')
                                | Raises msg \<Rightarrow> Raises msg),
      create_content_tweet = (\<lambda>campaign_id text source rs.
                                if TweetContent \<in> set fails then Raises ''tweet''
                                else insert_row ''content'' [Ref campaign_id, Text ''tweet'', Text text, Text source, Null] rs),
      create_content_shorts_caption = (\<lambda>campaign_id text source rs.
                                if CaptionContent \<in> set fails then Raises ''caption''
                                else insert_row ''content'' [Ref campaign_id, Text ''shorts_caption'', Text text, Text source, Null] rs),
      create_content_shorts_video = (\<lambda>campaign_id asset source rs.
                                if VideoContent \<in> set fails then Raises ''video''
                                else insert_row ''content'' [Ref campaign_id, Text ''video'', Null, Text source,
                                       (case asset of None \<Rightarrow> Null | Some a \<Rightarrow> Ref a)] rs),
      create_offer = (\<lambda>title description link rs.
                        let i = next_id rs; r = Row ''offers'' i [Text title, Text description, Text link]
                        in Returns (r, rs @ [r])),
      commit_ok = (Commit \<notin> set fails),
      cursor_close_ok = (CursorClose \<notin> set fails),
      rollback_ok = True,
      bedrock_pain_point = (\<lambda>title description. None),
      generate_script_from_pain_point = (\<lambda>pain persona. Returns (''Script about '' @ pain))\<rparr>"

text \<open>The data layer of the imported service module: its helpers return the mock id.\<close>

definition mock_layer :: "data_layer \<Rightarrow> data_layer" where
  "mock_layer dl =
     dl\<lparr>insert_campaign := mock_insert_campaign,
        update_campaign_core := mock_update_campaign_core,
        attach_platform := mock_attach_platform,
        create_content_tweet := mock_create_content,
        create_content_shorts_caption := mock_create_content,
        create_content_shorts_video := mock_create_content_shorts_video\<rparr>"

section \<open>Concrete inputs\<close>

text \<open>A \<open>str()\<close> that prints nothing for a value that is not a string.\<close>

definition no_repr :: "json \<Rightarrow> string" where
  "no_repr v = []"

definition request0 :: AutoCampaignRequest where
  "request0 =
     \<lparr>rq_offer_id = None, rq_offer_title = Some ''Offer A'', rq_offer_description = None,
      rq_cta_link = Some ''http://x'', rq_platforms = [''twitter'', ''shorts''],
      rq_generate_heygen_video = True, rq_persona = None, rq_pain_point = None,
      rq_override_script_text = None, rq_override_tweet_text = None,
      rq_override_video_caption = None\<rparr>"



text \<open>An answer with the given status, and a session that answers from a script.\<close>

definition answer :: "int \<Rightarrow> http_outcome" where
  "answer s = Responded \<lparr>status_code = s, retry_after_header = None\<rparr>"

definition scripted :: "http_outcome list \<Rightarrow> nat \<Rightarrow> http_outcome" where
  "scripted outs n = (if 1 \<le> n \<and> n \<le> length outs then outs ! (n - 1) else NetworkFailure)"

definition no_int :: "string \<Rightarrow> int option" where
  "no_int s = None"

definition always :: "bool \<Rightarrow> nat \<Rightarrow> bool" where
  "always b n = b"

definition scripted_env :: "http_outcome list \<Rightarrow> bool \<Rightarrow> http_env" where
  "scripted_env outs auth_ok =
     \<lparr>DEMO_MODE = False, session_request = scripted outs,
      authenticate_returns = always auth_ok, py_int = no_int\<rparr>"

text \<open>A pending PKCE session, a pending OAuth 1.0a session and two surroundings of a callback.\<close>

definition auth_state0 :: TwitterAuthState where
  "auth_state0 = \<lparr>code_verifier = ''verifier'', code_challenge = ''challenge'', state = ''s1''\<rparr>"

definition sessions0 :: "string \<rightharpoonup> TwitterAuthState" where
  "sessions0 = [''s1'' \<mapsto> auth_state0]"

definition oauth1_sessions0 :: "string \<rightharpoonup> TwitterOAuth1State" where
  "oauth1_sessions0 = [''t1'' \<mapsto> \<lparr>oauth_token = ''t1'', request_token_secret = ''secret''\<rparr>]"

definition cb_env_ok :: callback_env where
  "cb_env_ok =
     \<lparr>cb_demo = False,
      cb_load_config = Returns (Some ''https://app.example/auth/x/callback''),
      cb_token_post = Returns (200, ''access''),
      cb_user_info = Returns (200, ''Alice''),
      cb_persist = Returns \<lparr>message = [], account_id = 7, platform = ''twitter'',
                            account_name = ''Alice''\<rparr>\<rparr>"

definition cb_env_exchange_fails :: callback_env where
  "cb_env_exchange_fails = cb_env_ok\<lparr>cb_token_post := Returns (400, [])\<rparr>"

text \<open>What happens to the store between two callbacks: another callback and a new session.\<close>

definition later_ops :: "session_op list" where
  "later_ops =
     [Callback cb_env_ok ''code2'' ''s2'',
      Issue \<lparr>code_verifier = ''verifier3'', code_challenge = ''challenge3'', state = ''s3''\<rparr>]"

text \<open>Thirty-two bytes and a stand-in for the digest, to run the generator on.\<close>

definition token_bytes0 :: "char list" where
  "token_bytes0 = replicate 32 (CHR ''a'')"

definition toy_digest :: "char list \<Rightarrow> char list" where
  "toy_digest bytes = take 32 (bytes @ replicate 32 (CHR ''z''))"

text \<open>A storage service whose transfers succeed, a video job in progress and an event.\<close>

definition stamp0 :: "nat \<Rightarrow> string" where
  "stamp0 n = ''2025/01/01/'' @ replicate (Suc n) (CHR ''a'')"

definition transfer_ok :: "json \<Rightarrow> nat \<Rightarrow> transfer" where
  "transfer_ok url n = TransferOk"

definition storage0 :: storage_env where
  "storage0 = \<lparr>st_demo = False, st_bucket = ''media'', st_prefix = ''assets'',
                st_stamp = stamp0, st_transfer = transfer_ok\<rparr>"

definition no_hmac :: "string \<Rightarrow> string \<Rightarrow> string" where
  "no_hmac secret body = []"

definition webhook_env0 :: webhook_env where
  "webhook_env0 = \<lparr>we_secret = None, we_hmac_sha256_hex = no_hmac, we_repr = no_repr,
                    we_storage = storage0\<rparr>"

definition job0 :: video_job where
  "job0 = \<lparr>job_status = ''processing'', job_asset_id = None, job_error = None,
            job_source_url = None\<rparr>"

definition world0 :: world where
  "world0 = \<lparr>videos = [JStr ''v1'' \<mapsto> job0], assets = [], storage_calls = 0, fetched = [],
              uploaded = []\<rparr>"

definition event :: "(string \<times> json) list \<Rightarrow> webhook_request" where
  "event kvs = \<lparr>wr_body = [], wr_signature = None, wr_json = Some (JObj kvs)\<rparr>"

definition completed_payload :: "(string \<times> json) list" where
  "completed_payload =
     [(''video_id'', JStr ''v1''), (''status'', JStr ''completed''),
      (''video_url'', JStr ''https://cdn.example/v1.mp4'')]"

definition completed_event :: webhook_request where
  "completed_event = event completed_payload"

text \<open>
  The steps the assembly itself performs, and the property of a block of statements that
  it raises at no other step.
\<close>

definition assembly_step :: "step \<Rightarrow> bool" where
  "assembly_step s = (s \<noteq> Commit \<and> s \<noteq> CursorClose)"

definition only_assembly_steps :: "'a txn \<Rightarrow> bool" where
  "only_assembly_steps m =
     (\<forall>rs. case fst (m rs) of Inl (StepFailed s msg) \<Rightarrow> assembly_step s | Inr x \<Rightarrow> True)"

definition table_of :: "row \<Rightarrow> string" where
  "table_of r = (case r of Row table i cols \<Rightarrow> table)"

text \<open>A database with one offer, and a request for that offer.\<close>

definition offers0 :: rows where
  "offers0 = [Row ''offers'' 1 [Text ''Offer A'', Text ''A thing'', Text ''http://x'']]"

definition request1 :: AutoCampaignRequest where
  "request1 = request0\<lparr>rq_offer_id := Some 1\<rparr>"

section \<open>Strings\<close>

lemma is_space_lower_char: "is_space (lower_char c) = is_space c"
  unfolding is_space_def lower_char_def Let_def
  by auto

lemma dropWhile_space_lower: "dropWhile is_space (lower s) = lower (dropWhile is_space s)"
  by (induction s) (auto simp: lower_def is_space_lower_char)

lemma lower_rev: "lower (rev s) = rev (lower s)"
  by (simp add: lower_def rev_map)

lemma strip_lower: "strip (lower s) = lower (strip s)"
  by (simp add: strip_def dropWhile_space_lower lower_rev flip: lower_rev)

lemma lower_empty: "lower s = [] \<longleftrightarrow> s = []"
  by (simp add: lower_def)

lemma strip_lower_empty: "strip (lower s) = [] \<longleftrightarrow> strip s = []"
  by (simp only: strip_lower lower_empty)

section \<open>Platform validation\<close>

lemma empty_not_supported: "[] \<notin> set supported_platforms"
  by (simp add: supported_platforms_def PLATFORM_CAPS_def)

lemma set_normalize_platforms:
  "set (normalize_platforms repr xs) =
     {strip (lower (py_str repr p)) | p. p \<in> set xs \<and> strip (py_str repr p) \<noteq> []}"
  by (auto simp: normalize_platforms_def)

lemma some_supported_iff:
  "filter (\<lambda>p. p \<in> set supported_platforms) (normalize_platforms repr xs) \<noteq> [] \<longleftrightarrow>
     (\<exists>p\<in>set xs. strip (lower (py_str repr p)) \<in> set supported_platforms)"
proof
  assume "filter (\<lambda>p. p \<in> set supported_platforms) (normalize_platforms repr xs) \<noteq> []"
  then obtain q where "q \<in> set (normalize_platforms repr xs)" "q \<in> set supported_platforms"
    by (auto simp: filter_empty_conv)
  then show "\<exists>p\<in>set xs. strip (lower (py_str repr p)) \<in> set supported_platforms"
    by (auto simp: set_normalize_platforms)
next
  assume "\<exists>p\<in>set xs. strip (lower (py_str repr p)) \<in> set supported_platforms"
  then obtain p where p: "p \<in> set xs" "strip (lower (py_str repr p)) \<in> set supported_platforms"
    by blast
  then have "strip (lower (py_str repr p)) \<noteq> []"
    using empty_not_supported by metis
  then have "strip (py_str repr p) \<noteq> []"
    by (simp add: strip_lower_empty)
  with p have "strip (lower (py_str repr p)) \<in> set (normalize_platforms repr xs)"
    by (auto simp: set_normalize_platforms)
  with p(2) show "filter (\<lambda>p. p \<in> set supported_platforms) (normalize_platforms repr xs) \<noteq> []"
    by (auto simp: filter_empty_conv)
qed

lemma validate_list:
  "normalize_and_validate_platforms repr (JArr xs) =
     (if xs = [] \<or> normalize_platforms repr xs = []
      then Inl (ValueError ''At least one platform must be provided'')
      else if filter (\<lambda>p. p \<in> set supported_platforms) (normalize_platforms repr xs) = []
      then Inl (ValueError ''Unsupported platforms'')
      else Inr (filter (\<lambda>p. p \<in> set supported_platforms) (normalize_platforms repr xs)))"
  by (simp add: normalize_and_validate_platforms_def Let_def)

lemma validate_accepts_iff:
  "(\<exists>ps. normalize_and_validate_platforms repr (JArr xs) = Inr ps) \<longleftrightarrow>
     (\<exists>p\<in>set xs. strip (lower (py_str repr p)) \<in> set supported_platforms)"
proof (cases "normalize_platforms repr xs = []")
  case True
  then have "filter (\<lambda>p. p \<in> set supported_platforms) (normalize_platforms repr xs) = []" by simp
  then have "\<not> (\<exists>p\<in>set xs. strip (lower (py_str repr p)) \<in> set supported_platforms)"
    using some_supported_iff by blast
  with True show ?thesis by (simp add: validate_list)
next
  case False
  then have "xs \<noteq> []" by (auto simp: normalize_platforms_def)
  with False show ?thesis
    using some_supported_iff [of repr xs] by (auto simp: validate_list)
qed

lemma validation_error_no_write:
  "normalize_and_validate_platforms repr v = Inl (ValueError msg) \<Longrightarrow>
     post_auto_campaign dl repr (Some v) request db = (Inl (HTTPException 422 msg), db)"
  by (simp add: post_auto_campaign_def)

text \<open>
  C9, as stated, fails: a platform list that contains an unsupported name next to a
  supported one passes validation, the unsupported name being dropped.
\<close>

theorem unsupported_platform_is_dropped:
  "normalize_and_validate_platforms no_repr (JArr [JStr ''twitter'', JStr ''myspace''])
     = Inr [''twitter'']"
  by code_simp

text \<open>
  C9, amended: the platform list is validated against the capability registry before any
  database write. An empty list fails validation; a list none of whose entries is, once
  lower-cased and stripped, a supported platform name fails validation; and a failed
  validation answers 422 with the database untouched. A list with at least one supported
  entry passes, and the request continues with the supported entries only.
\<close>

theorem platforms_validated_before_writes:
  "(\<exists>msg. normalize_and_validate_platforms repr (JArr []) = Inl (ValueError msg)
          \<and> post_auto_campaign dl repr (Some (JArr [])) request db = (Inl (HTTPException 422 msg), db))
   \<and> ((\<forall>p\<in>set xs. strip (lower (py_str repr p)) \<notin> set supported_platforms) \<longrightarrow>
        (\<exists>msg. normalize_and_validate_platforms repr (JArr xs) = Inl (ValueError msg)
           \<and> post_auto_campaign dl repr (Some (JArr xs)) request db = (Inl (HTTPException 422 msg), db)))
   \<and> ((\<exists>p\<in>set xs. strip (lower (py_str repr p)) \<in> set supported_platforms) \<longrightarrow>
        normalize_and_validate_platforms repr (JArr xs) =
          Inr (filter (\<lambda>p. p \<in> set supported_platforms) (normalize_platforms repr xs)))"
proof (intro conjI impI)
  show "\<exists>msg. normalize_and_validate_platforms repr (JArr []) = Inl (ValueError msg)
          \<and> post_auto_campaign dl repr (Some (JArr [])) request db = (Inl (HTTPException 422 msg), db)"
    by (simp add: validate_list validation_error_no_write)
next
  assume none: "\<forall>p\<in>set xs. strip (lower (py_str repr p)) \<notin> set supported_platforms"
  then have no_ps: "\<nexists>ps. normalize_and_validate_platforms repr (JArr xs) = Inr ps"
    using validate_accepts_iff [of repr xs] by blast
  obtain msg where "normalize_and_validate_platforms repr (JArr xs) = Inl (ValueError msg)"
  proof (cases "normalize_and_validate_platforms repr (JArr xs)")
    case (Inl e)
    then show ?thesis using that by (cases e) simp
  next
    case (Inr ps)
    with no_ps show ?thesis by blast
  qed
  then show "\<exists>msg. normalize_and_validate_platforms repr (JArr xs) = Inl (ValueError msg)
           \<and> post_auto_campaign dl repr (Some (JArr xs)) request db = (Inl (HTTPException 422 msg), db)"
    using validation_error_no_write by blast
next
  assume "\<exists>p\<in>set xs. strip (lower (py_str repr p)) \<in> set supported_platforms"
  then obtain ps where ps: "normalize_and_validate_platforms repr (JArr xs) = Inr ps"
    using validate_accepts_iff [of repr xs] by blast
  then show "normalize_and_validate_platforms repr (JArr xs) =
          Inr (filter (\<lambda>p. p \<in> set supported_platforms) (normalize_platforms repr xs))"
    by (auto simp: validate_list split: if_splits)
qed

theorem platforms_validated_before_writes_witness:
  "strip (lower (py_str no_repr (JStr ''myspace''))) \<notin> set supported_platforms
   \<and> post_auto_campaign (writing_layer []) no_repr (Some (JArr [JStr ''myspace''])) request0 []
       = (Inl (HTTPException 422 ''Unsupported platforms''), [])"
proof -
  have h: "strip (lower (py_str no_repr (JStr ''myspace''))) \<notin> set supported_platforms"
    by code_simp
  then have "\<forall>p\<in>set [JStr ''myspace'']. strip (lower (py_str no_repr p)) \<notin> set supported_platforms"
    by simp
  with platforms_validated_before_writes
         [of no_repr "writing_layer []" request0 "[]" "[JStr ''myspace'']"]
  obtain msg where
    m: "normalize_and_validate_platforms no_repr (JArr [JStr ''myspace'']) = Inl (ValueError msg)"
    and p: "post_auto_campaign (writing_layer []) no_repr (Some (JArr [JStr ''myspace''])) request0 []
              = (Inl (HTTPException 422 msg), [])"
    by blast
  have "normalize_and_validate_platforms no_repr (JArr [JStr ''myspace''])
          = Inl (ValueError ''Unsupported platforms'')"
    by code_simp
  with m have "msg = ''Unsupported platforms''" by simp
  with p h show ?thesis by simp
qed

section \<open>Retry engine\<close>

lemma attempt_once_continue:
  "attempt_once env ex mr bo a le tr = Continue le' tr' \<Longrightarrow>
     requests_made tr' = requests_made tr + 1 \<and>
     (if a = 1 \<and> auth_failure (session_request env a)
      then auth_calls tr' = auth_calls tr + 1 \<and> authenticate_returns env (auth_calls tr + 1)
      else auth_calls tr' = auth_calls tr \<and> \<not> auth_failure (session_request env a))"
  by (auto simp: attempt_once_def backoff_sleep_def auth_failure_def Let_def
           split: http_outcome.splits if_splits)

lemma attempt_once_done:
  "attempt_once env ex mr bo a le tr = Done res tr' \<Longrightarrow>
     requests_made tr' = requests_made tr + 1 \<and>
     (if a = 1 \<and> auth_failure (session_request env a)
      then auth_calls tr' = auth_calls tr + 1 \<and> \<not> authenticate_returns env (auth_calls tr + 1)
           \<and> res = Inl AuthenticationError
      else auth_calls tr' = auth_calls tr \<and>
           (auth_failure (session_request env a) \<longrightarrow>
              res = Inl (AuthorizationError (status_of (session_request env a)))))"
  by (auto simp: attempt_once_def backoff_sleep_def auth_failure_def status_of_def Let_def
           split: http_outcome.splits if_splits)

lemma loop_exhausted:
  "\<not> int a \<le> mr \<Longrightarrow>
     retry_loop env ex mr bo a le tr =
       (Inl (APIRequestError (if le then RequestFailedLast else RequestFailedUnknown)), tr)"
  by (simp add: retry_loop.simps [of env ex mr bo a le tr])

lemma loop_done:
  "int a \<le> mr \<Longrightarrow> attempt_once env ex mr bo a le tr = Done res1 tr1 \<Longrightarrow>
     retry_loop env ex mr bo a le tr = (res1, tr1)"
  by (simp add: retry_loop.simps [of env ex mr bo a le tr])

lemma loop_continue:
  "int a \<le> mr \<Longrightarrow> attempt_once env ex mr bo a le tr = Continue le1 tr1 \<Longrightarrow>
     retry_loop env ex mr bo a le tr = retry_loop env ex mr bo (a + 1) le1 tr1"
  by (simp add: retry_loop.simps [of env ex mr bo a le tr])

text \<open>
  From the second attempt on there is no \<open>authenticate()\<close> call, each attempt issues one
  request, and an answer 401 or 403 ends the call with \<open>AuthorizationError\<close>.
\<close>

lemma later_attempts:
  "retry_loop env ex mr bo a le tr = (res, tr') \<Longrightarrow> 2 \<le> a \<Longrightarrow> requests_made tr + 1 = a \<Longrightarrow>
     auth_calls tr' = auth_calls tr \<and> requests_made tr \<le> requests_made tr' \<and>
     (\<forall>k. a \<le> k \<and> k \<le> requests_made tr' \<and> auth_failure (session_request env k) \<longrightarrow>
          k = requests_made tr' \<and> res = Inl (AuthorizationError (status_of (session_request env k))))"
proof (induction env ex mr bo a le tr arbitrary: res tr' rule: retry_loop.induct)
  case (1 env ex mr bo a le tr)
  show ?case
  proof (cases "int a \<le> mr")
    case False
    with "1.prems" show ?thesis
      by (auto simp: loop_exhausted)
  next
    case True
    show ?thesis
    proof (cases "attempt_once env ex mr bo a le tr")
      case (Done res1 tr1)
      with "1.prems"(1) have eq: "res = res1" "tr' = tr1"
        using loop_done [OF True Done] by simp_all
      from attempt_once_done [OF Done] "1.prems"(2,3) eq show ?thesis
        by (auto split: if_splits)
    next
      case (Continue le1 tr1)
      with "1.prems"(1) have rec: "retry_loop env ex mr bo (a + 1) le1 tr1 = (res, tr')"
        using loop_continue [OF True Continue] by simp
      from attempt_once_continue [OF Continue] "1.prems"(2,3)
      have c: "requests_made tr1 = requests_made tr + 1" "auth_calls tr1 = auth_calls tr"
        "\<not> auth_failure (session_request env a)"
        by (auto split: if_splits)
      have ih: "auth_calls tr' = auth_calls tr1 \<and> requests_made tr1 \<le> requests_made tr' \<and>
          (\<forall>k. a + 1 \<le> k \<and> k \<le> requests_made tr' \<and> auth_failure (session_request env k) \<longrightarrow>
             k = requests_made tr' \<and> res = Inl (AuthorizationError (status_of (session_request env k))))"
        using "1.IH" [OF _ Continue rec] True "1.prems"(2,3) c(1) by simp
      show ?thesis
      proof (intro conjI allI impI)
        show "auth_calls tr' = auth_calls tr" using ih c by simp
        show "requests_made tr \<le> requests_made tr'" using ih c by simp
      next
        fix k assume k: "a \<le> k \<and> k \<le> requests_made tr' \<and> auth_failure (session_request env k)"
        with c(3) have "k \<noteq> a" by auto
        with k have "a + 1 \<le> k" by simp
        with k ih show "k = requests_made tr'" by blast
      next
        fix k assume k: "a \<le> k \<and> k \<le> requests_made tr' \<and> auth_failure (session_request env k)"
        with c(3) have "k \<noteq> a" by auto
        with k have "a + 1 \<le> k" by simp
        with k ih show "res = Inl (AuthorizationError (status_of (session_request env k)))" by blast
      qed
    qed
  qed
qed

lemma loop_makes_request:
  assumes run: "retry_loop env ex mr bo a le tr = (res, tr')"
    and a: "int a \<le> mr" "2 \<le> a" "requests_made tr + 1 = a"
  shows "a \<le> requests_made tr'"
proof (cases "attempt_once env ex mr bo a le tr")
  case (Done res1 tr1)
  with run a(1) have "tr' = tr1"
    using loop_done [OF a(1) Done] by simp
  with attempt_once_done [OF Done] a(3) show ?thesis by simp
next
  case (Continue le1 tr1)
  with run a(1) have rec: "retry_loop env ex mr bo (a + 1) le1 tr1 = (res, tr')"
    using loop_continue [OF a(1) Continue] by simp
  from attempt_once_continue [OF Continue] have r1: "requests_made tr1 = requests_made tr + 1"
    by simp
  with later_attempts [OF rec] a(2,3) show ?thesis by simp
qed

text \<open>
  C3, as stated, fails: with \<open>max_retries = 1\<close> a 401 on the first attempt is followed
  by the \<open>authenticate()\<close> call and by no further attempt, and with \<open>max_retries = 3\<close>
  the answers 401, 500, 200 give two further attempts.
\<close>

theorem refresh_not_followed_by_exactly_one_attempt:
  "request_with_retry (scripted_env [answer 401] True) None 1 1
     = (Inl (APIRequestError RequestFailedUnknown),
        \<lparr>requests_made = 1, auth_calls = 1, sleeps = []\<rparr>)
   \<and> request_with_retry (scripted_env [answer 401, answer 500, answer 200] True) None 3 1
     = (Inr \<lparr>status_code = 200, retry_after_header = None\<rparr>,
        \<lparr>requests_made = 3, auth_calls = 1, sleeps = [2]\<rparr>)"
  by code_simp

text \<open>
  C3, amended: in one call of the retry engine \<open>authenticate()\<close> is called at most once,
  and exactly when the first attempt is answered 401 or 403. If that call raises, the
  engine raises \<open>AuthenticationError\<close> after the one request; if it returns and
  \<open>max_retries\<close> is at least 2, a second attempt is made, and the attempts after it follow
  the usual retry rules. An answer 401 or 403 on any later attempt is the last request of
  the call and raises \<open>AuthorizationError\<close>, with no further \<open>authenticate()\<close> call.
\<close>

theorem auth_refresh_at_most_once:
  "request_with_retry env ex mr bo = (res, tr) \<Longrightarrow>
     auth_calls tr \<le> 1
   \<and> (\<not> DEMO_MODE env \<and> 1 \<le> mr \<and> auth_failure (session_request env 1) \<longrightarrow>
        auth_calls tr = 1
        \<and> (\<not> authenticate_returns env 1 \<longrightarrow> res = Inl AuthenticationError \<and> requests_made tr = 1)
        \<and> (authenticate_returns env 1 \<and> 2 \<le> mr \<longrightarrow> 2 \<le> requests_made tr))
   \<and> (\<not> (\<not> DEMO_MODE env \<and> 1 \<le> mr \<and> auth_failure (session_request env 1)) \<longrightarrow> auth_calls tr = 0)
   \<and> (\<forall>k. 2 \<le> k \<and> k \<le> requests_made tr \<and> auth_failure (session_request env k) \<longrightarrow>
          k = requests_made tr \<and> res = Inl (AuthorizationError (status_of (session_request env k))))"
proof -
  define exs where "exs = (case ex of None \<Rightarrow> [200, 201, 202] | Some xs \<Rightarrow> xs)"
  assume call: "request_with_retry env ex mr bo = (res, tr)"
  show ?thesis
  proof (cases "DEMO_MODE env")
    case True
    with call have "tr = trace0" by (simp add: request_with_retry_def)
    with True show ?thesis by (simp add: trace0_def)
  next
    case nodemo: False
    with call have run: "retry_loop env exs mr bo 1 False trace0 = (res, tr)"
      by (simp add: request_with_retry_def exs_def)
    show ?thesis
    proof (cases "int 1 \<le> mr")
      case False
      with run have "tr = trace0" using loop_exhausted [OF False] by simp
      with False show ?thesis by (simp add: trace0_def)
    next
      case mr: True
      show ?thesis
      proof (cases "attempt_once env exs mr bo 1 False trace0")
        case (Done res1 tr1)
        with run have "res = res1" "tr = tr1"
          using loop_done [OF mr Done] by simp_all
        with attempt_once_done [OF Done] nodemo mr show ?thesis
          by (auto simp: trace0_def split: if_splits)
      next
        case (Continue le1 tr1)
        with run have rec: "retry_loop env exs mr bo (1 + 1) le1 tr1 = (res, tr)"
          using loop_continue [OF mr Continue] by simp
        from attempt_once_continue [OF Continue]
        have c: "requests_made tr1 = 1"
          "auth_failure (session_request env 1) \<Longrightarrow> auth_calls tr1 = 1 \<and> authenticate_returns env 1"
          "\<not> auth_failure (session_request env 1) \<Longrightarrow> auth_calls tr1 = 0"
          by (auto simp: trace0_def split: if_splits)
        from later_attempts [OF rec] c(1)
        have l: "auth_calls tr = auth_calls tr1"
          "\<forall>k. 2 \<le> k \<and> k \<le> requests_made tr \<and> auth_failure (session_request env k) \<longrightarrow>
              k = requests_made tr \<and> res = Inl (AuthorizationError (status_of (session_request env k)))"
          by simp_all
        have two: "2 \<le> mr \<Longrightarrow> 2 \<le> requests_made tr"
          using loop_makes_request [OF rec] c(1) by simp
        show ?thesis
        proof (cases "auth_failure (session_request env 1)")
          case True
          with c(2) l two nodemo mr show ?thesis by simp
        next
          case af: False
          with c(3) l nodemo mr show ?thesis by simp
        qed
      qed
    qed
  qed
qed

theorem auth_refresh_at_most_once_witness:
  "request_with_retry (scripted_env [answer 401, answer 429, answer 403] True) None 3 1
     = (Inl (AuthorizationError 403), \<lparr>requests_made = 3, auth_calls = 1, sleeps = [2]\<rparr>)
   \<and> \<not> DEMO_MODE (scripted_env [answer 401, answer 429, answer 403] True)
   \<and> auth_failure (session_request (scripted_env [answer 401, answer 429, answer 403] True) 1)
   \<and> authenticate_returns (scripted_env [answer 401, answer 429, answer 403] True) 1
   \<and> auth_failure (session_request (scripted_env [answer 401, answer 429, answer 403] True) 3)
   \<and> status_of (session_request (scripted_env [answer 401, answer 429, answer 403] True) 3) = 403
   \<and> auth_calls \<lparr>requests_made = 3, auth_calls = 1, sleeps = [2]\<rparr> = 1
   \<and> (2::nat) \<le> requests_made \<lparr>requests_made = 3, auth_calls = 1, sleeps = [2::rat]\<rparr>"
proof -
  let ?env = "scripted_env [answer 401, answer 429, answer 403] True"
  let ?tr = "\<lparr>requests_made = 3, auth_calls = 1, sleeps = [2::rat]\<rparr>"
  have run: "request_with_retry ?env None 3 1 = (Inl (AuthorizationError 403), ?tr)"
    by code_simp
  have h: "\<not> DEMO_MODE ?env" "auth_failure (session_request ?env 1)"
    "authenticate_returns ?env 1" "auth_failure (session_request ?env 3)"
    "status_of (session_request ?env 3) = 403"
    by code_simp+
  from auth_refresh_at_most_once [OF run] h
  have "auth_calls ?tr = 1" "2 \<le> requests_made ?tr"
    by simp_all
  with run h show ?thesis by simp
qed

section \<open>Connection tests\<close>

text \<open>
  C8 is right and \<open>TwitterPlatform.test_connection\<close> breaks it: with a token configured
  and three answers 500, the exception of the retry engine leaves \<open>test_connection\<close>.
\<close>

theorem twitter_test_connection_raises:
  "twitter_test_connection (scripted_env [answer 500, answer 500, answer 500] True) (Some ''token'')
     = Inl (APIRequestError (UnexpectedStatus 500))"
  by code_simp

text \<open>The sibling implementations return a boolean on every path.\<close>

lemma reddit_test_connection_total: "\<exists>b. reddit_test_connection env = Inr b"
  by (cases "reddit_try_body env") (auto simp: reddit_test_connection_def)

lemma oauth1_test_connection_total: "oauth1_test_connection demo = Inr False"
  by (simp add: oauth1_test_connection_def)

lemma twitter_test_connection_raises_iff:
  "(\<exists>e. twitter_test_connection env tok = Inl e) \<longleftrightarrow>
     \<not> DEMO_MODE env \<and> secret_present tok \<and>
     (\<exists>e. fst (request_with_retry env (Some [200]) 3 1) = Inl e)"
  by (auto simp: twitter_test_connection_def split: sum.splits)

section \<open>OAuth session stores\<close>

lemma callback_store:
  "fst (snd (twitter_oauth_callback env code st sessions)) = sessions(st := None)"
  by (auto simp: twitter_oauth_callback_def Let_def
           split: option.splits outcome.splits prod.splits sum.splits)

lemma callback_absent:
  "sessions st = None \<Longrightarrow>
     twitter_oauth_callback env code st sessions =
       (Inl (HTTPException 400 ''Invalid or expired state''), sessions, [])"
  by (simp add: twitter_oauth_callback_def)

lemma run_session_ops_absent:
  "sessions st = None \<Longrightarrow> st \<notin> set (issued_states ops) \<Longrightarrow> run_session_ops ops sessions st = None"
proof (induction ops arbitrary: sessions)
  case Nil
  then show ?case by simp
next
  case (Cons op ops)
  show ?case
  proof (cases op)
    case (Callback env code st')
    have "(fst (snd (twitter_oauth_callback env code st' sessions))) st = None"
      using Cons.prems(1) by (simp add: callback_store)
    moreover have "st \<notin> set (issued_states ops)"
      using Cons.prems(2) Callback by simp
    ultimately have
      "run_session_ops ops (fst (snd (twitter_oauth_callback env code st' sessions))) st = None"
      by (rule Cons.IH)
    with Callback show ?thesis by simp
  next
    case (Issue auth_state)
    with Cons.prems(2) have ne: "state auth_state \<noteq> st" and rest: "st \<notin> set (issued_states ops)"
      by auto
    from ne Cons.prems(1) have "issue_session auth_state sessions st = None"
      by (simp add: issue_session_def)
    then have "run_session_ops ops (issue_session auth_state sessions) st = None"
      using rest by (rule Cons.IH)
    with Issue show ?thesis by simp
  qed
qed

text \<open>
  C6: a PKCE session state token is single-use. The first callback that presents a state
  token leaves the store without it, and a callback that presents the same token later,
  whatever callbacks and newly issued sessions (under other state tokens) came in between,
  fails with status 400 "Invalid or expired state", touches nothing and performs no token
  exchange.
\<close>

theorem state_token_single_use:
  "twitter_oauth_callback env1 code1 st sessions = (r1, s1, ev1) \<Longrightarrow>
   st \<notin> set (issued_states ops) \<Longrightarrow>
     s1 = sessions(st := None)
   \<and> twitter_oauth_callback env2 code2 st (run_session_ops ops s1)
       = (Inl (HTTPException 400 ''Invalid or expired state''), run_session_ops ops s1, [])"
proof -
  assume first: "twitter_oauth_callback env1 code1 st sessions = (r1, s1, ev1)"
    and fresh: "st \<notin> set (issued_states ops)"
  have s1: "s1 = sessions(st := None)"
    using callback_store [of env1 code1 st sessions] first by simp
  then have "s1 st = None" by simp
  then have "run_session_ops ops s1 st = None"
    using fresh by (rule run_session_ops_absent)
  then show ?thesis using s1 by (simp add: callback_absent)
qed

theorem state_token_single_use_witness:
  "fst (twitter_oauth_callback cb_env_ok ''code'' ''s1'' sessions0)
     = Inr \<lparr>message = ''Twitter account connected successfully'', account_id = 7,
            platform = ''twitter'', account_name = ''Alice''\<rparr>
   \<and> snd (snd (twitter_oauth_callback cb_env_ok ''code'' ''s1'' sessions0))
     = [TokenPost ''code'' ''verifier'', UserInfoGet ''access'', PersistAccount ''Alice'']
   \<and> ''s1'' \<notin> set (issued_states later_ops)
   \<and> fst (twitter_oauth_callback cb_env_ok ''code'' ''s1''
            (run_session_ops later_ops
               (fst (snd (twitter_oauth_callback cb_env_ok ''code'' ''s1'' sessions0)))))
     = Inl (HTTPException 400 ''Invalid or expired state'')
   \<and> snd (snd (twitter_oauth_callback cb_env_ok ''code'' ''s1''
            (run_session_ops later_ops
               (fst (snd (twitter_oauth_callback cb_env_ok ''code'' ''s1'' sessions0))))))
     = []"
proof -
  let ?first = "twitter_oauth_callback cb_env_ok ''code'' ''s1'' sessions0"
  have first: "?first = (fst ?first, fst (snd ?first), snd (snd ?first))"
    by simp
  have r: "fst ?first = Inr \<lparr>message = ''Twitter account connected successfully'', account_id = 7,
            platform = ''twitter'', account_name = ''Alice''\<rparr>"
    "snd (snd ?first) = [TokenPost ''code'' ''verifier'', UserInfoGet ''access'', PersistAccount ''Alice'']"
    by code_simp+
  have fresh: "''s1'' \<notin> set (issued_states later_ops)"
    by code_simp
  let ?later = "run_session_ops later_ops (fst (snd ?first))"
  have "twitter_oauth_callback cb_env_ok ''code'' ''s1'' ?later
          = (Inl (HTTPException 400 ''Invalid or expired state''), ?later, [])"
    using state_token_single_use [OF first fresh, of cb_env_ok "''code''"]
    by (rule conjunct2)
  then have "fst (twitter_oauth_callback cb_env_ok ''code'' ''s1'' ?later)
               = Inl (HTTPException 400 ''Invalid or expired state'')"
    "snd (snd (twitter_oauth_callback cb_env_ok ''code'' ''s1'' ?later)) = []"
    by (simp_all only: fst_conv snd_conv)
  with r fresh show ?thesis by (intro conjI)
qed

lemma oauth1_callback_store:
  "snd (twitter_oauth1_callback env tok ver sessions) = sessions(tok := None)"
  by (auto simp: twitter_oauth1_callback_def Let_def split: option.splits outcome.splits)

lemma oauth1_callback_absent:
  "sessions tok = None \<Longrightarrow>
     twitter_oauth1_callback env tok ver sessions =
       (Inl (HTTPException 400 ''Invalid or expired oauth_token''), sessions)"
  by (simp add: twitter_oauth1_callback_def)

text \<open>
  C10: both callbacks remove the session from the store before the exchange is attempted.
  When a callback for a pending session ends in an error, whether from the token exchange,
  the user-info request or anything after the removal, the state token is gone, and a
  retry with the same token is rejected with status 400 as invalid or expired.
\<close>

theorem state_consumed_by_failed_callback:
  "(sessions st = Some a \<and> twitter_oauth_callback env code st sessions = (Inl ex, left, evs) \<longrightarrow>
      left st = None
      \<and> twitter_oauth_callback env' code' st left
          = (Inl (HTTPException 400 ''Invalid or expired state''), left, []))
   \<and> (pending tok = Some b \<and> twitter_oauth1_callback env tok ver pending = (Inl ex2, rest) \<longrightarrow>
      rest tok = None
      \<and> twitter_oauth1_callback env' tok ver' rest
          = (Inl (HTTPException 400 ''Invalid or expired oauth_token''), rest))"
proof (intro conjI impI)
  assume h: "sessions st = Some a \<and> twitter_oauth_callback env code st sessions = (Inl ex, left, evs)"
  then have "left = sessions(st := None)"
    using callback_store [of env code st sessions] by simp
  then show "left st = None" by simp
  then show "twitter_oauth_callback env' code' st left
          = (Inl (HTTPException 400 ''Invalid or expired state''), left, [])"
    by (rule callback_absent)
next
  assume h: "pending tok = Some b \<and> twitter_oauth1_callback env tok ver pending = (Inl ex2, rest)"
  then have "rest = pending(tok := None)"
    using oauth1_callback_store [of env tok ver pending] by simp
  then show "rest tok = None" by simp
  then show "twitter_oauth1_callback env' tok ver' rest
          = (Inl (HTTPException 400 ''Invalid or expired oauth_token''), rest)"
    by (rule oauth1_callback_absent)
qed

theorem state_consumed_by_failed_callback_witness:
  "sessions0 ''s1'' = Some auth_state0
   \<and> fst (twitter_oauth_callback cb_env_exchange_fails ''code'' ''s1'' sessions0)
       = Inl (HTTPException 500 ''Token exchange failed'')
   \<and> snd (snd (twitter_oauth_callback cb_env_exchange_fails ''code'' ''s1'' sessions0))
       = [TokenPost ''code'' ''verifier'']
   \<and> fst (snd (twitter_oauth_callback cb_env_exchange_fails ''code'' ''s1'' sessions0)) ''s1'' = None
   \<and> fst (twitter_oauth_callback cb_env_ok ''code'' ''s1''
            (fst (snd (twitter_oauth_callback cb_env_exchange_fails ''code'' ''s1'' sessions0))))
       = Inl (HTTPException 400 ''Invalid or expired state'')
   \<and> oauth1_sessions0 ''t1'' = Some \<lparr>oauth_token = ''t1'', request_token_secret = ''secret''\<rparr>
   \<and> fst (twitter_oauth1_callback cb_env_exchange_fails ''t1'' ''v'' oauth1_sessions0)
       = Inl (HTTPException 500 ''OAuth 1.0a not fully implemented'')
   \<and> fst (twitter_oauth1_callback cb_env_ok ''t1'' ''v''
            (snd (twitter_oauth1_callback cb_env_exchange_fails ''t1'' ''v'' oauth1_sessions0)))
       = Inl (HTTPException 400 ''Invalid or expired oauth_token'')"
proof -
  let ?c = "twitter_oauth_callback cb_env_exchange_fails ''code'' ''s1'' sessions0"
  let ?d = "twitter_oauth1_callback cb_env_exchange_fails ''t1'' ''v'' oauth1_sessions0"
  have p: "sessions0 ''s1'' = Some auth_state0"
    "oauth1_sessions0 ''t1'' = Some \<lparr>oauth_token = ''t1'', request_token_secret = ''secret''\<rparr>"
    by (simp_all add: sessions0_def oauth1_sessions0_def)
  have r: "fst ?c = Inl (HTTPException 500 ''Token exchange failed'')"
    "snd (snd ?c) = [TokenPost ''code'' ''verifier'']"
    "fst ?d = Inl (HTTPException 500 ''OAuth 1.0a not fully implemented'')"
    by code_simp+
  have c: "?c = (Inl (HTTPException 500 ''Token exchange failed''), fst (snd ?c), snd (snd ?c))"
    using r(1) by (metis prod.collapse)
  have d: "?d = (Inl (HTTPException 500 ''OAuth 1.0a not fully implemented''), snd ?d)"
    using r(3) by (metis prod.collapse)
  note inst = state_consumed_by_failed_callback
         [where sessions = sessions0 and st = "''s1''" and a = auth_state0
            and env = cb_env_exchange_fails and code = "''code''" and left = "fst (snd ?c)"
            and evs = "snd (snd ?c)" and env' = cb_env_ok and code' = "''code''"
            and pending = oauth1_sessions0 and tok = "''t1''" and ver = "''v''"
            and ver' = "''v''" and rest = "snd ?d"]
  have e: "fst (snd ?c) ''s1'' = None"
    "twitter_oauth_callback cb_env_ok ''code'' ''s1'' (fst (snd ?c))
       = (Inl (HTTPException 400 ''Invalid or expired state''), fst (snd ?c), [])"
    using inst p(1) c by blast+
  have "twitter_oauth1_callback cb_env_ok ''t1'' ''v'' (snd ?d)
       = (Inl (HTTPException 400 ''Invalid or expired oauth_token''), snd ?d)"
    using inst p(2) d by blast
  then have f: "fst (twitter_oauth1_callback cb_env_ok ''t1'' ''v'' (snd ?d))
       = Inl (HTTPException 400 ''Invalid or expired oauth_token'')"
    by (simp only: fst_conv)
  from e(2) have g: "fst (twitter_oauth_callback cb_env_ok ''code'' ''s1'' (fst (snd ?c)))
       = Inl (HTTPException 400 ''Invalid or expired state'')"
    by (simp only: fst_conv)
  from p r e(1) f g show ?thesis by (intro conjI)
qed

section \<open>PKCE pair\<close>

lemma pad_not_in_alphabet: "CHR ''='' \<notin> set b64url_alphabet"
  by (simp add: b64url_alphabet_def)

lemma length_alphabet: "length b64url_alphabet = 64"
  by (simp add: b64url_alphabet_def)

lemma b64_char_in_alphabet: "b64_char n \<in> set b64url_alphabet"
  by (simp add: b64_char_def length_alphabet)

lemma b64_char_not_pad: "b64_char n \<noteq> CHR ''=''"
  using b64_char_in_alphabet [of n] pad_not_in_alphabet by metis

text \<open>The encoder's output is a body over the alphabet followed by padding.\<close>

lemma encode_body_pad:
  "\<exists>body pad. urlsafe_b64encode xs = body @ pad
     \<and> set body \<subseteq> set b64url_alphabet \<and> set pad \<subseteq> {CHR ''=''}
     \<and> length body = (4 * length xs + 2) div 3"
proof (induction xs rule: urlsafe_b64encode.induct)
  case 1
  show ?case by simp
next
  case (2 a)
  have "urlsafe_b64encode [a] =
      [b64_char (of_char a div 4), b64_char ((of_char a mod 4) * 16)] @ [CHR ''='', CHR ''='']"
    by (simp add: Let_def)
  then show ?case
    by (intro exI conjI) (assumption, simp_all add: b64_char_in_alphabet)
next
  case (3 a b)
  have "urlsafe_b64encode [a, b] =
      [b64_char (of_char a div 4), b64_char ((of_char a mod 4) * 16 + of_char b div 16),
       b64_char ((of_char b mod 16) * 4)] @ [CHR ''='']"
    by (simp add: Let_def)
  then show ?case
    by (intro exI conjI) (assumption, simp_all add: b64_char_in_alphabet)
next
  case (4 a b c rest)
  then obtain body pad where ih: "urlsafe_b64encode rest = body @ pad"
    "set body \<subseteq> set b64url_alphabet" "set pad \<subseteq> {CHR ''=''}"
    "length body = (4 * length rest + 2) div 3"
    by blast
  have "urlsafe_b64encode (a # b # c # rest) =
      ([b64_char (of_char a div 4), b64_char ((of_char a mod 4) * 16 + of_char b div 16),
        b64_char ((of_char b mod 16) * 4 + of_char c div 64), b64_char (of_char c mod 64)] @ body) @ pad"
    using ih(1) by (simp add: Let_def)
  moreover have "length ([b64_char (of_char a div 4), b64_char ((of_char a mod 4) * 16 + of_char b div 16),
        b64_char ((of_char b mod 16) * 4 + of_char c div 64), b64_char (of_char c mod 64)] @ body)
      = (4 * length (a # b # c # rest) + 2) div 3"
    using ih(4) by simp
  ultimately show ?case
    using ih(2,3) by (intro exI conjI) (assumption, simp_all add: b64_char_in_alphabet)
qed

lemma rstrip_body_pad:
  assumes "CHR ''='' \<notin> set body" "set pad \<subseteq> {CHR ''=''}"
  shows "rstrip_eq (body @ pad) = body"
proof -
  have "dropWhile (\<lambda>c. c = CHR ''='') (rev pad @ rev body) = dropWhile (\<lambda>c. c = CHR ''='') (rev body)"
    using assms(2) by (intro dropWhile_append2) auto
  also have "\<dots> = rev body"
    using assms(1) by (cases "rev body") auto
  finally show ?thesis by (simp add: rstrip_eq_def)
qed

lemma stripped_encoding:
  "set (rstrip_eq (urlsafe_b64encode xs)) \<subseteq> set b64url_alphabet
   \<and> CHR ''='' \<notin> set (rstrip_eq (urlsafe_b64encode xs))
   \<and> length (rstrip_eq (urlsafe_b64encode xs)) = (4 * length xs + 2) div 3"
proof -
  obtain body pad where e: "urlsafe_b64encode xs = body @ pad"
    "set body \<subseteq> set b64url_alphabet" "set pad \<subseteq> {CHR ''=''}"
    "length body = (4 * length xs + 2) div 3"
    using encode_body_pad by blast
  from e(2) have np: "CHR ''='' \<notin> set body"
    using pad_not_in_alphabet by blast
  from rstrip_body_pad [OF np e(3)] e show ?thesis
    using np by simp
qed

lemma rfc4648_vectors:
  "urlsafe_b64encode ''f'' = ''Zg==''"
  "urlsafe_b64encode ''fo'' = ''Zm8=''"
  "urlsafe_b64encode ''foo'' = ''Zm9v''"
  "urlsafe_b64encode ''foobar'' = ''Zm9vYmFy''"
  by code_simp+

text \<open>
  C7: for the verifier and challenge that \<open>generate_pkce_pair\<close> returns on 32 bytes
  from the random source, the verifier is the base64url encoding of those bytes with the
  padding stripped and the challenge is the base64url encoding of the SHA-256 digest of the
  verifier with the padding stripped; neither contains a padding character, both are over
  the URL-safe alphabet, and the verifier has 43 characters.
\<close>

theorem pkce_pair_shape:
  "length token_bytes = 32 \<Longrightarrow> generate_pkce_pair sha256 token_bytes = (verifier, challenge) \<Longrightarrow>
     verifier = rstrip_eq (urlsafe_b64encode token_bytes)
   \<and> challenge = rstrip_eq (urlsafe_b64encode (sha256 verifier))
   \<and> CHR ''='' \<notin> set verifier \<and> CHR ''='' \<notin> set challenge
   \<and> set verifier \<subseteq> set b64url_alphabet \<and> set challenge \<subseteq> set b64url_alphabet
   \<and> length verifier = 43
   \<and> length challenge = (4 * length (sha256 verifier) + 2) div 3"
proof -
  assume len: "length token_bytes = 32"
    and pair: "generate_pkce_pair sha256 token_bytes = (verifier, challenge)"
  from pair have v: "verifier = rstrip_eq (urlsafe_b64encode token_bytes)"
    and c: "challenge = rstrip_eq (urlsafe_b64encode (sha256 verifier))"
    by (auto simp: generate_pkce_pair_def Let_def)
  from stripped_encoding [of token_bytes] stripped_encoding [of "sha256 verifier"] v c len
  show ?thesis by simp
qed

theorem pkce_pair_shape_witness:
  "length token_bytes0 = 32
   \<and> generate_pkce_pair toy_digest token_bytes0
       = (''YWFhYWFhYWFhYWFhYWFhYWFhYWFhYWFhYWFhYWFhYWE'',
          ''WVdGaFlXRmhZV0ZoWVdGaFlXRmhZV0ZoWVdGaFlXRmg'')
   \<and> CHR ''='' \<notin> set ''YWFhYWFhYWFhYWFhYWFhYWFhYWFhYWFhYWFhYWFhYWE''
   \<and> length ''YWFhYWFhYWFhYWFhYWFhYWFhYWFhYWFhYWFhYWFhYWE'' = 43"
proof -
  have len: "length token_bytes0 = 32"
    by (simp add: token_bytes0_def)
  have pair: "generate_pkce_pair toy_digest token_bytes0
       = (''YWFhYWFhYWFhYWFhYWFhYWFhYWFhYWFhYWFhYWFhYWE'',
          ''WVdGaFlXRmhZV0ZoWVdGaFlXRmhZV0ZoWVdGaFlXRmg'')"
    by code_simp
  from pkce_pair_shape [OF len pair] len pair show ?thesis by blast
qed

section \<open>Webhook reconciliation\<close>

lemma webhook_fields_object:
  "webhook_fields (JObj kvs) =
     (case (case map_of kvs ''status'' of None \<Rightarrow> JStr [] | Some v \<Rightarrow> v) of
        JStr raw \<Rightarrow>
          Returns (case map_of kvs ''event_type'' of
                     Some v \<Rightarrow> v
                   | None \<Rightarrow> (case map_of kvs ''type'' of Some v \<Rightarrow> v | None \<Rightarrow> JNull),
                   case map_of kvs ''video_id'' of Some v \<Rightarrow> v | None \<Rightarrow> JNull,
                   lower raw)
      | _ \<Rightarrow> Raises ''AttributeError'')"
  by (simp add: webhook_fields_def dict_get_def obind_def json_lower_def
           split: option.splits json.splits)

lemma handle_fields:
  "signature_accepted env req \<Longrightarrow> wr_json req = Some payload \<Longrightarrow>
   webhook_fields payload = Returns (event_type, vid, s) \<Longrightarrow> truthy vid \<Longrightarrow>
   handle_heygen_webhook env req w =
     (case reconcile env payload vid (db_status_of (derive_status (we_repr env) s event_type)) w of
        (Raises msg, w1) \<Rightarrow> (Inl (HTTPException 500 msg), w1)
      | (Returns u, w1) \<Rightarrow>
          (Inr (Processed vid (db_status_of (derive_status (we_repr env) s event_type))), w1))"
  by (simp add: handle_heygen_webhook_def Let_def)

lemma derive_status_given: "s \<noteq> [] \<Longrightarrow> derive_status repr s et = s"
  by (simp add: derive_status_def)

lemma reconcile_other:
  "db \<noteq> ''completed'' \<Longrightarrow> reconcile env payload vid db w = (Returns (), set_status vid db w)"
  by (simp add: reconcile_def)

lemma db_status_of_table:
  "db_status_of ''completed'' = ''completed''"
  "db_status_of ''success'' = ''completed''"
  "db_status_of ''succeeded'' = ''completed''"
  "db_status_of ''finished'' = ''completed''"
  "db_status_of ''failed'' = ''failed''"
  "db_status_of ''error'' = ''failed''"
  "db_status_of ''processing'' = ''processing''"
  "db_status_of ''pending'' = ''processing''"
  "db_status_of [] = ''processing''"
  by (simp_all add: db_status_of_def status_map_def)

lemma db_status_of_unlisted:
  assumes "s \<notin> fst ` set status_map" "s \<noteq> []"
  shows "db_status_of s = s"
proof -
  from assms(1) have "map_of status_map s = None"
    by (simp only: map_of_eq_None_iff not_False_eq_True)
  with assms(2) show ?thesis by (simp add: db_status_of_def)
qed

lemma db_status_of_completed_iff:
  "db_status_of s = ''completed'' \<longleftrightarrow> s \<in> {''completed'', ''success'', ''succeeded'', ''finished''}"
  by (auto simp: db_status_of_def status_map_def split: if_splits)

lemma update_video_idem:
  "(\<And>j. f (f j) = f j) \<Longrightarrow> update_video vid f (update_video vid f w) = update_video vid f w"
  by (cases "videos w vid") (simp_all add: update_video_def)

lemma set_status_idem: "set_status vid s (set_status vid s w) = set_status vid s w"
  by (simp add: set_status_def update_video_idem)

lemma mark_failed_idem: "mark_failed vid e u (mark_failed vid e u w) = mark_failed vid e u w"
  by (simp add: mark_failed_def update_video_idem)

lemma set_status_job:
  "videos w vid = Some job \<Longrightarrow> videos (set_status vid s w) vid = Some (job\<lparr>job_status := s\<rparr>)"
  by (simp add: set_status_def update_video_def)

text \<open>
  C1, as stated, fails: a non-empty status that is not in the lookup table is not turned
  into \<open>processing\<close>; it is reported and stored as it came, lower-cased.
\<close>

theorem unlisted_status_is_kept:
  "fst (handle_heygen_webhook webhook_env0
          (event [(''video_id'', JStr ''v1''), (''status'', JStr ''Rendering'')]) world0)
     = Inr (Processed (JStr ''v1'') ''rendering'')
   \<and> videos (snd (handle_heygen_webhook webhook_env0
          (event [(''video_id'', JStr ''v1''), (''status'', JStr ''Rendering'')]) world0)) (JStr ''v1'')
     = Some \<lparr>job_status = ''rendering'', job_asset_id = None, job_error = None,
             job_source_url = None\<rparr>"
  by code_simp

text \<open>
  C1, amended: for every webhook event the handler processes (signature accepted, a JSON
  object with a video id and a non-empty status string), the lower-cased status is looked
  up in the table: \<open>completed\<close>, \<open>success\<close>, \<open>succeeded\<close>, \<open>finished\<close> give
  \<open>completed\<close> (the event is then handled as a completion, or the URL lookup raises and
  the answer is 500); \<open>failed\<close>, \<open>error\<close> give \<open>failed\<close>; \<open>processing\<close>,
  \<open>pending\<close> give \<open>processing\<close>; a status that is not in the table is kept as the job
  status. The status is written to the job with that video id.
\<close>

theorem provider_status_normalised:
  assumes "signature_accepted env req" and "wr_json req = Some (JObj kvs)"
    and "map_of kvs ''status'' = Some (JStr raw)" and "raw \<noteq> []"
    and "map_of kvs ''video_id'' = Some vid" and "truthy vid"
  shows
    "(lower raw \<in> {''completed'', ''success'', ''succeeded'', ''finished''} \<longrightarrow>
        (\<exists>w'. handle_heygen_webhook env req w = (Inr (Processed vid ''completed''), w'))
        \<or> (\<exists>msg. handle_heygen_webhook env req w = (Inl (HTTPException 500 msg), w)))
     \<and> (lower raw \<in> {''failed'', ''error''} \<longrightarrow>
          handle_heygen_webhook env req w = (Inr (Processed vid ''failed''), set_status vid ''failed'' w))
     \<and> (lower raw \<in> {''processing'', ''pending''} \<longrightarrow>
          handle_heygen_webhook env req w
            = (Inr (Processed vid ''processing''), set_status vid ''processing'' w))
     \<and> (lower raw \<notin> fst ` set status_map \<longrightarrow>
          handle_heygen_webhook env req w
            = (Inr (Processed vid (lower raw)), set_status vid (lower raw) w))
     \<and> (\<forall>job s. videos w vid = Some job \<longrightarrow>
          videos (set_status vid s w) vid = Some (job\<lparr>job_status := s\<rparr>))"
proof -
  define et where "et = (case map_of kvs ''event_type'' of
                     Some v \<Rightarrow> v
                   | None \<Rightarrow> (case map_of kvs ''type'' of Some v \<Rightarrow> v | None \<Rightarrow> JNull))"
  have fields: "webhook_fields (JObj kvs) = Returns (et, vid, lower raw)"
    using assms(3,5) by (simp add: webhook_fields_object et_def)
  have ne: "lower raw \<noteq> []"
    using assms(4) by (simp add: lower_empty)
  have h: "handle_heygen_webhook env req w =
     (case reconcile env (JObj kvs) vid (db_status_of (lower raw)) w of
        (Raises msg, w1) \<Rightarrow> (Inl (HTTPException 500 msg), w1)
      | (Returns u, w1) \<Rightarrow> (Inr (Processed vid (db_status_of (lower raw))), w1))"
    using handle_fields [OF assms(1,2) fields assms(6)]
    unfolding derive_status_given [OF ne] .
  have other: "db_status_of (lower raw) \<noteq> ''completed'' \<Longrightarrow>
      handle_heygen_webhook env req w
        = (Inr (Processed vid (db_status_of (lower raw))), set_status vid (db_status_of (lower raw)) w)"
    by (simp add: h reconcile_other)
  have c1: "lower raw \<in> {''completed'', ''success'', ''succeeded'', ''finished''} \<longrightarrow>
        (\<exists>w'. handle_heygen_webhook env req w = (Inr (Processed vid ''completed''), w'))
        \<or> (\<exists>msg. handle_heygen_webhook env req w = (Inl (HTTPException 500 msg), w))"
  proof
    assume "lower raw \<in> {''completed'', ''success'', ''succeeded'', ''finished''}"
    then have db: "db_status_of (lower raw) = ''completed''"
      by (simp add: db_status_of_completed_iff)
    show "(\<exists>w'. handle_heygen_webhook env req w = (Inr (Processed vid ''completed''), w'))
        \<or> (\<exists>msg. handle_heygen_webhook env req w = (Inl (HTTPException 500 msg), w))"
    proof (cases "resolve_video_url (JObj kvs)")
      case (Raises msg)
      then show ?thesis by (simp add: h db reconcile_def)
    next
      case (Returns url)
      then show ?thesis
        by (auto simp: h db reconcile_def Let_def split: prod.splits outcome.splits)
    qed
  qed
  have c2: "lower raw \<in> {''failed'', ''error''} \<longrightarrow>
          handle_heygen_webhook env req w = (Inr (Processed vid ''failed''), set_status vid ''failed'' w)"
    using other by (auto simp: db_status_of_table)
  have c3: "lower raw \<in> {''processing'', ''pending''} \<longrightarrow>
          handle_heygen_webhook env req w
            = (Inr (Processed vid ''processing''), set_status vid ''processing'' w)"
    using other by (auto simp: db_status_of_table)
  have c4: "lower raw \<notin> fst ` set status_map \<longrightarrow>
          handle_heygen_webhook env req w
            = (Inr (Processed vid (lower raw)), set_status vid (lower raw) w)"
  proof
    assume u: "lower raw \<notin> fst ` set status_map"
    then have "db_status_of (lower raw) = lower raw"
      using ne by (rule db_status_of_unlisted)
    moreover from u have "lower raw \<noteq> ''completed''"
      by (auto simp: status_map_def)
    ultimately show "handle_heygen_webhook env req w
            = (Inr (Processed vid (lower raw)), set_status vid (lower raw) w)"
      using other by simp
  qed
  from c1 c2 c3 c4 set_status_job show ?thesis by blast
qed

theorem provider_status_normalised_witness:
  "signature_accepted webhook_env0 (event [(''video_id'', JStr ''v1''), (''status'', JStr ''ERROR'')])
   \<and> truthy (JStr ''v1'')
   \<and> lower ''ERROR'' \<in> {''failed'', ''error''}
   \<and> videos world0 (JStr ''v1'') = Some job0
   \<and> fst (handle_heygen_webhook webhook_env0
            (event [(''video_id'', JStr ''v1''), (''status'', JStr ''ERROR'')]) world0)
       = Inr (Processed (JStr ''v1'') ''failed'')
   \<and> videos (snd (handle_heygen_webhook webhook_env0
            (event [(''video_id'', JStr ''v1''), (''status'', JStr ''ERROR'')]) world0)) (JStr ''v1'')
       = Some (job0\<lparr>job_status := ''failed''\<rparr>)"
proof -
  let ?kvs = "[(''video_id'', JStr ''v1''), (''status'', JStr ''ERROR'')]"
  have s: "signature_accepted webhook_env0 (event ?kvs)"
    by code_simp
  have j: "wr_json (event ?kvs) = Some (JObj ?kvs)"
    by (simp add: event_def)
  have l: "lower ''ERROR'' \<in> {''failed'', ''error''}"
    by code_simp
  have v: "videos world0 (JStr ''v1'') = Some job0"
    by (simp add: world0_def)
  note inst = provider_status_normalised
      [OF s j, of "''ERROR''" "JStr ''v1''" world0, simplified]
  from inst l have run: "handle_heygen_webhook webhook_env0 (event ?kvs) world0
      = (Inr (Processed (JStr ''v1'') ''failed''), set_status (JStr ''v1'') ''failed'' world0)"
    by blast
  from inst v have "videos (set_status (JStr ''v1'') ''failed'' world0) (JStr ''v1'')
      = Some (job0\<lparr>job_status := ''failed''\<rparr>)"
    by blast
  with run s l v show ?thesis by simp
qed

lemma download_transfer_ok:
  "\<not> st_demo senv \<Longrightarrow> st_transfer senv url (storage_calls w) = TransferOk \<Longrightarrow>
     download_to_s3 senv url kind ext w =
       (Returns \<lparr>bucket = st_bucket senv, key = generate_key senv kind ext (storage_calls w),
                 s3_url = ''s3://'' @ st_bucket senv @ ''/'' @ generate_key senv kind ext (storage_calls w)\<rparr>,
        w\<lparr>storage_calls := storage_calls w + 1, fetched := fetched w @ [url],
          uploaded := uploaded w @ [generate_key senv kind ext (storage_calls w)]\<rparr>)"
  by (simp add: download_to_s3_def Let_def)

lemma download_transfer_fails:
  "\<not> st_demo senv \<Longrightarrow> st_transfer senv url (storage_calls w) \<noteq> TransferOk \<Longrightarrow>
     \<exists>msg. download_to_s3 senv url kind ext w =
       (Raises msg, w\<lparr>storage_calls := storage_calls w + 1, fetched := fetched w @ [url]\<rparr>)"
  by (cases "st_transfer senv url (storage_calls w)") (simp_all add: download_to_s3_def Let_def)

lemma reconcile_no_url:
  "resolve_video_url payload = Returns url \<Longrightarrow> \<not> truthy url \<Longrightarrow>
     reconcile env payload vid ''completed'' w = (Returns (), mark_failed vid None None w)"
  by (simp add: reconcile_def)

lemma reconcile_url_raises:
  "resolve_video_url payload = Raises msg \<Longrightarrow>
     reconcile env payload vid ''completed'' w = (Raises msg, w)"
  by (simp add: reconcile_def)

lemma reconcile_mirrored:
  assumes "resolve_video_url payload = Returns url" "truthy url" "\<not> st_demo (we_storage env)"
    "st_transfer (we_storage env) url (storage_calls w) = TransferOk"
  shows "reconcile env payload vid ''completed'' w =
     (Returns (),
      mark_completed vid (Suc (length (assets w)))
        (w\<lparr>storage_calls := storage_calls w + 1, fetched := fetched w @ [url],
           uploaded := uploaded w @ [generate_key (we_storage env) ''videos'' ''mp4'' (storage_calls w)],
           assets := assets w @
             [\<lparr>asset_id = Suc (length (assets w)),
               asset_url = ''s3://'' @ st_bucket (we_storage env) @ ''/''
                 @ generate_key (we_storage env) ''videos'' ''mp4'' (storage_calls w)\<rparr>]\<rparr>))"
  using assms
  by (simp add: reconcile_def download_transfer_ok insert_asset_def Let_def)

lemma reconcile_mirror_fails:
  assumes "resolve_video_url payload = Returns url" "truthy url" "\<not> st_demo (we_storage env)"
    "st_transfer (we_storage env) url (storage_calls w) \<noteq> TransferOk"
  shows "\<exists>msg. reconcile env payload vid ''completed'' w =
     (Returns (),
      mark_failed vid (Some msg) (Some url)
        (w\<lparr>storage_calls := storage_calls w + 1, fetched := fetched w @ [url]\<rparr>))"
proof -
  from download_transfer_fails [OF assms(3,4)] obtain msg where
    "download_to_s3 (we_storage env) url ''videos'' ''mp4'' w =
       (Raises msg, w\<lparr>storage_calls := storage_calls w + 1, fetched := fetched w @ [url]\<rparr>)"
    by blast
  with assms(1,2) show ?thesis by (intro exI [of _ msg]) (simp add: reconcile_def)
qed

lemma update_video_fields [simp]:
  "assets (update_video vid f w) = assets w"
  "fetched (update_video vid f w) = fetched w"
  "uploaded (update_video vid f w) = uploaded w"
  "storage_calls (update_video vid f w) = storage_calls w"
  by (cases "videos w vid"; simp add: update_video_def)+

lemma update_video_job:
  "videos w vid = Some job \<Longrightarrow> videos (update_video vid f w) vid = Some (f job)"
  by (simp add: update_video_def)

lemma update_video_absent:
  "videos w vid = None \<Longrightarrow> update_video vid f w = w"
  by (simp add: update_video_def)

lemma handle_processed:
  assumes "signature_accepted env req" "wr_json req = Some payload"
    "webhook_fields payload = Returns (event_type, vid, s)" "truthy vid"
    "reconcile env payload vid (db_status_of (derive_status (we_repr env) s event_type)) w = (Returns (), w')"
  shows "handle_heygen_webhook env req w
     = (Inr (Processed vid (db_status_of (derive_status (we_repr env) s event_type))), w')"
  using handle_fields [OF assms(1-4), of w] assms(5) by simp

lemma handle_raises:
  assumes "signature_accepted env req" "wr_json req = Some payload"
    "webhook_fields payload = Returns (event_type, vid, s)" "truthy vid"
    "reconcile env payload vid (db_status_of (derive_status (we_repr env) s event_type)) w = (Raises msg, w')"
  shows "handle_heygen_webhook env req w = (Inl (HTTPException 500 msg), w')"
  using handle_fields [OF assms(1-4), of w] assms(5) by simp

text \<open>
  The default \<open>processing\<close> is what an event without a status and without an event type
  gets.
\<close>

lemma absent_status_defaults_to_processing:
  assumes "signature_accepted env req" and "wr_json req = Some (JObj kvs)"
    and "map_of kvs ''status'' = None" and "map_of kvs ''event_type'' = None"
    and "map_of kvs ''type'' = None"
    and "map_of kvs ''video_id'' = Some vid" and "truthy vid"
  shows "handle_heygen_webhook env req w
     = (Inr (Processed vid ''processing''), set_status vid ''processing'' w)"
proof -
  have fields: "webhook_fields (JObj kvs) = Returns (JNull, vid, [])"
    using assms(3-6) by (simp add: webhook_fields_object lower_def)
  have d: "db_status_of (derive_status (we_repr env) [] JNull) = ''processing''"
    by (simp add: derive_status_def db_status_of_table)
  show ?thesis
    using handle_processed [OF assms(1,2) fields assms(7), unfolded d, of w]
      reconcile_other [of "''processing''" env "JObj kvs" vid w]
    by simp
qed

lemma mark_fields [simp]:
  "assets (mark_completed vid aid w) = assets w"
  "fetched (mark_completed vid aid w) = fetched w"
  "storage_calls (mark_completed vid aid w) = storage_calls w"
  "uploaded (mark_completed vid aid w) = uploaded w"
  "assets (mark_failed vid e u w) = assets w"
  "fetched (mark_failed vid e u w) = fetched w"
  "storage_calls (mark_failed vid e u w) = storage_calls w"
  "uploaded (mark_failed vid e u w) = uploaded w"
  by (simp_all add: mark_completed_def mark_failed_def)

text \<open>One delivery of a completion event that carries a URL, outside demo mode.\<close>

lemma completed_delivery:
  assumes sig: "signature_accepted env req" and json: "wr_json req = Some payload"
    and fields: "webhook_fields payload = Returns (event_type, vid, s)" and vid: "truthy vid"
    and st: "db_status_of (derive_status (we_repr env) s event_type) = ''completed''"
    and url: "resolve_video_url payload = Returns url" "truthy url"
    and nodemo: "\<not> st_demo (we_storage env)"
  shows "\<exists>w'. handle_heygen_webhook env req w = (Inr (Processed vid ''completed''), w')
     \<and> fetched w' = fetched w @ [url] \<and> storage_calls w' = storage_calls w + 1
     \<and> (st_transfer (we_storage env) url (storage_calls w) = TransferOk \<longrightarrow>
          assets w' = assets w @
            [\<lparr>asset_id = Suc (length (assets w)),
              asset_url = ''s3://'' @ st_bucket (we_storage env) @ ''/''
                @ generate_key (we_storage env) ''videos'' ''mp4'' (storage_calls w)\<rparr>]
          \<and> uploaded w' = uploaded w @ [generate_key (we_storage env) ''videos'' ''mp4'' (storage_calls w)]
          \<and> (\<forall>job. videos w vid = Some job \<longrightarrow>
                videos w' vid = Some (job\<lparr>job_status := ''completed'',
                                          job_asset_id := Some (Suc (length (assets w)))\<rparr>)))
     \<and> (st_transfer (we_storage env) url (storage_calls w) \<noteq> TransferOk \<longrightarrow>
          assets w' = assets w \<and> uploaded w' = uploaded w
          \<and> (\<forall>job. videos w vid = Some job \<longrightarrow>
                (\<exists>msg. videos w' vid = Some (job\<lparr>job_status := ''failed'', job_error := Some msg,
                                                 job_source_url := Some url\<rparr>))))"
proof (cases "st_transfer (we_storage env) url (storage_calls w) = TransferOk")
  case True
  let ?k = "generate_key (we_storage env) ''videos'' ''mp4'' (storage_calls w)"
  let ?w = "w\<lparr>storage_calls := storage_calls w + 1, fetched := fetched w @ [url],
           uploaded := uploaded w @ [?k],
           assets := assets w @
             [\<lparr>asset_id = Suc (length (assets w)),
               asset_url = ''s3://'' @ st_bucket (we_storage env) @ ''/'' @ ?k\<rparr>]\<rparr>"
  have "handle_heygen_webhook env req w
      = (Inr (Processed vid ''completed''), mark_completed vid (Suc (length (assets w))) ?w)"
    using handle_processed [OF sig json fields vid, unfolded st]
      reconcile_mirrored [OF url nodemo True] by simp
  moreover have "\<forall>job. videos w vid = Some job \<longrightarrow>
      videos (mark_completed vid (Suc (length (assets w))) ?w) vid
        = Some (job\<lparr>job_status := ''completed'', job_asset_id := Some (Suc (length (assets w)))\<rparr>)"
    by (simp add: mark_completed_def update_video_def)
  ultimately show ?thesis using True by simp
next
  case False
  let ?w = "w\<lparr>storage_calls := storage_calls w + 1, fetched := fetched w @ [url]\<rparr>"
  from reconcile_mirror_fails [OF url nodemo False] obtain msg where
    r: "reconcile env payload vid ''completed'' w
          = (Returns (), mark_failed vid (Some msg) (Some url) ?w)"
    by blast
  have "handle_heygen_webhook env req w
      = (Inr (Processed vid ''completed''), mark_failed vid (Some msg) (Some url) ?w)"
    using handle_processed [OF sig json fields vid, unfolded st] r by simp
  moreover have "\<forall>job. videos w vid = Some job \<longrightarrow>
      videos (mark_failed vid (Some msg) (Some url) ?w) vid
        = Some (job\<lparr>job_status := ''failed'', job_error := Some msg, job_source_url := Some url\<rparr>)"
    by (simp add: mark_failed_def update_video_def)
  ultimately show ?thesis using False by auto
qed

text \<open>
  C2, as stated, fails: the handler does not look at the job's current status, so the
  second delivery of a completion event downloads the artifact again and creates a second
  asset record.
\<close>

theorem replay_downloads_and_stores_again:
  "fst (handle_heygen_webhook webhook_env0 completed_event world0)
     = Inr (Processed (JStr ''v1'') ''completed'')
   \<and> map asset_id (assets (snd (handle_heygen_webhook webhook_env0 completed_event world0))) = [1]
   \<and> fetched (snd (handle_heygen_webhook webhook_env0 completed_event world0))
       = [JStr ''https://cdn.example/v1.mp4'']
   \<and> map asset_id (assets (snd (handle_heygen_webhook webhook_env0 completed_event
        (snd (handle_heygen_webhook webhook_env0 completed_event world0))))) = [1, 2]
   \<and> fetched (snd (handle_heygen_webhook webhook_env0 completed_event
        (snd (handle_heygen_webhook webhook_env0 completed_event world0))))
       = [JStr ''https://cdn.example/v1.mp4'', JStr ''https://cdn.example/v1.mp4'']"
  by code_simp

text \<open>
  C2, amended: when the same event is delivered a second time, the answer is the same. If
  its status is not \<open>completed\<close> (a \<open>failed\<close> event in particular), or it is
  \<open>completed\<close> without a URL, the second delivery changes nothing: no download, no
  asset record, the job as the first delivery left it. If it is \<open>completed\<close> with a
  URL, each delivery (outside demo mode) fetches the URL again; when both transfers succeed each delivery adds
  an asset record and the job is \<open>completed\<close> after each, and when both fail no asset
  record is added and the job is \<open>failed\<close> after each.
\<close>

theorem replayed_terminal_event:
  assumes sig: "signature_accepted env req" and json: "wr_json req = Some payload"
    and fields: "webhook_fields payload = Returns (event_type, vid, s)" and vid: "truthy vid"
    and st: "status' = db_status_of (derive_status (we_repr env) s event_type)"
    and first: "handle_heygen_webhook env req w = (Inr (Processed vid status'), w1)"
    and second: "handle_heygen_webhook env req w1 = (r2, w2)"
  shows
    "r2 = Inr (Processed vid status')
     \<and> (status' \<noteq> ''completed'' \<longrightarrow> w2 = w1)
     \<and> (\<forall>url. status' = ''completed'' \<and> resolve_video_url payload = Returns url \<and> \<not> truthy url \<longrightarrow>
          w2 = w1)
     \<and> (\<forall>url. status' = ''completed'' \<and> resolve_video_url payload = Returns url \<and> truthy url
            \<and> \<not> st_demo (we_storage env) \<longrightarrow>
          fetched w1 = fetched w @ [url] \<and> fetched w2 = fetched w1 @ [url]
          \<and> (st_transfer (we_storage env) url (storage_calls w) = TransferOk
               \<and> st_transfer (we_storage env) url (storage_calls w1) = TransferOk \<longrightarrow>
              length (assets w1) = length (assets w) + 1
              \<and> length (assets w2) = length (assets w1) + 1
              \<and> (\<forall>job. videos w vid = Some job \<longrightarrow>
                    (\<exists>j1 j2. videos w1 vid = Some j1 \<and> videos w2 vid = Some j2
                       \<and> job_status j1 = ''completed'' \<and> job_status j2 = ''completed'')))
          \<and> (st_transfer (we_storage env) url (storage_calls w) \<noteq> TransferOk
               \<and> st_transfer (we_storage env) url (storage_calls w1) \<noteq> TransferOk \<longrightarrow>
              assets w1 = assets w \<and> assets w2 = assets w
              \<and> (\<forall>job. videos w vid = Some job \<longrightarrow>
                    (\<exists>j1 j2. videos w1 vid = Some j1 \<and> videos w2 vid = Some j2
                       \<and> job_status j1 = ''failed'' \<and> job_status j2 = ''failed''))))"
proof -
  note h = handle_fields [OF sig json fields vid, folded st]
  have r2: "r2 = Inr (Processed vid status')"
  proof -
    from first h [of w] have "fst (reconcile env payload vid status' w) = Returns ()"
      by (auto split: prod.splits outcome.splits)
    then have "fst (reconcile env payload vid status' w1) = Returns ()"
      by (auto simp: reconcile_def Let_def insert_asset_def split: if_splits outcome.splits prod.splits)
    with second h [of w1] show ?thesis
      by (cases "reconcile env payload vid status' w1") auto
  qed
  have other: "status' \<noteq> ''completed'' \<longrightarrow> w2 = w1"
    using first second h by (auto simp: reconcile_other set_status_idem)
  have nourl: "\<forall>url. status' = ''completed'' \<and> resolve_video_url payload = Returns url \<and> \<not> truthy url \<longrightarrow>
          w2 = w1"
    using first second h by (auto simp: reconcile_no_url mark_failed_idem)
  have withurl: "fetched w1 = fetched w @ [url] \<and> fetched w2 = fetched w1 @ [url]
          \<and> (st_transfer (we_storage env) url (storage_calls w) = TransferOk
               \<and> st_transfer (we_storage env) url (storage_calls w1) = TransferOk \<longrightarrow>
              length (assets w1) = length (assets w) + 1
              \<and> length (assets w2) = length (assets w1) + 1
              \<and> (\<forall>job. videos w vid = Some job \<longrightarrow>
                    (\<exists>j1 j2. videos w1 vid = Some j1 \<and> videos w2 vid = Some j2
                       \<and> job_status j1 = ''completed'' \<and> job_status j2 = ''completed'')))
          \<and> (st_transfer (we_storage env) url (storage_calls w) \<noteq> TransferOk
               \<and> st_transfer (we_storage env) url (storage_calls w1) \<noteq> TransferOk \<longrightarrow>
              assets w1 = assets w \<and> assets w2 = assets w
              \<and> (\<forall>job. videos w vid = Some job \<longrightarrow>
                    (\<exists>j1 j2. videos w1 vid = Some j1 \<and> videos w2 vid = Some j2
                       \<and> job_status j1 = ''failed'' \<and> job_status j2 = ''failed'')))"
    if a: "status' = ''completed'' \<and> resolve_video_url payload = Returns url \<and> truthy url
            \<and> \<not> st_demo (we_storage env)" for url
  proof -
    from a st have c: "db_status_of (derive_status (we_repr env) s event_type) = ''completed''"
      and u: "resolve_video_url payload = Returns url" "truthy url"
      and nd: "\<not> st_demo (we_storage env)"
      by simp_all
    note d1 = completed_delivery [OF sig json fields vid c u nd, of w]
    note d2 = completed_delivery [OF sig json fields vid c u nd, of w1]
    from d1 first have f1: "fetched w1 = fetched w @ [url]" by auto
    from d2 second have f2: "fetched w2 = fetched w1 @ [url]" by auto
    have ok: "length (assets w1) = length (assets w) + 1 \<and> length (assets w2) = length (assets w1) + 1
        \<and> (\<forall>job. videos w vid = Some job \<longrightarrow>
              (\<exists>j1 j2. videos w1 vid = Some j1 \<and> videos w2 vid = Some j2
                 \<and> job_status j1 = ''completed'' \<and> job_status j2 = ''completed''))"
      if t: "st_transfer (we_storage env) url (storage_calls w) = TransferOk
               \<and> st_transfer (we_storage env) url (storage_calls w1) = TransferOk"
    proof -
      from d1 first t have a1: "length (assets w1) = length (assets w) + 1"
        and j1: "\<forall>job. videos w vid = Some job \<longrightarrow>
                videos w1 vid = Some (job\<lparr>job_status := ''completed'',
                                          job_asset_id := Some (Suc (length (assets w)))\<rparr>)"
        by auto
      from d2 second t have a2: "length (assets w2) = length (assets w1) + 1"
        and j2: "\<forall>job. videos w1 vid = Some job \<longrightarrow>
                videos w2 vid = Some (job\<lparr>job_status := ''completed'',
                                          job_asset_id := Some (Suc (length (assets w1)))\<rparr>)"
        by auto
      from a1 a2 j1 j2 show ?thesis by auto
    qed
    have bad: "assets w1 = assets w \<and> assets w2 = assets w
        \<and> (\<forall>job. videos w vid = Some job \<longrightarrow>
              (\<exists>j1 j2. videos w1 vid = Some j1 \<and> videos w2 vid = Some j2
                 \<and> job_status j1 = ''failed'' \<and> job_status j2 = ''failed''))"
      if t: "st_transfer (we_storage env) url (storage_calls w) \<noteq> TransferOk
               \<and> st_transfer (we_storage env) url (storage_calls w1) \<noteq> TransferOk"
    proof -
      from d1 first t have a1: "assets w1 = assets w"
        and j1: "\<forall>job. videos w vid = Some job \<longrightarrow>
                (\<exists>msg. videos w1 vid = Some (job\<lparr>job_status := ''failed'', job_error := Some msg,
                                                 job_source_url := Some url\<rparr>))"
        by auto
      from d2 second t have a2: "assets w2 = assets w1"
        and j2: "\<forall>job. videos w1 vid = Some job \<longrightarrow>
                (\<exists>msg. videos w2 vid = Some (job\<lparr>job_status := ''failed'', job_error := Some msg,
                                                 job_source_url := Some url\<rparr>))"
        by auto
      show ?thesis
      proof (intro conjI allI impI)
        show "assets w1 = assets w" by (rule a1)
        show "assets w2 = assets w" using a1 a2 by simp
        fix job assume "videos w vid = Some job"
        with j1 obtain m1 where v1: "videos w1 vid = Some (job\<lparr>job_status := ''failed'',
            job_error := Some m1, job_source_url := Some url\<rparr>)" by blast
        with j2 obtain m2 where "videos w2 vid = Some (job\<lparr>job_status := ''failed'',
            job_error := Some m1, job_source_url := Some url\<rparr>\<lparr>job_status := ''failed'',
            job_error := Some m2, job_source_url := Some url\<rparr>)" by blast
        with v1 show "\<exists>j1 j2. videos w1 vid = Some j1 \<and> videos w2 vid = Some j2
                 \<and> job_status j1 = ''failed'' \<and> job_status j2 = ''failed''" by simp
      qed
    qed
    from f1 f2 ok bad show ?thesis by blast
  qed
  from r2 other nourl withurl show ?thesis by blast
qed

theorem replayed_terminal_event_witness:
  "signature_accepted webhook_env0 completed_event
   \<and> truthy (JStr ''v1'')
   \<and> resolve_video_url (JObj completed_payload) = Returns (JStr ''https://cdn.example/v1.mp4'')
   \<and> fst (handle_heygen_webhook webhook_env0 completed_event world0)
       = Inr (Processed (JStr ''v1'') ''completed'')
   \<and> fst (handle_heygen_webhook webhook_env0 completed_event
            (snd (handle_heygen_webhook webhook_env0 completed_event world0)))
       = Inr (Processed (JStr ''v1'') ''completed'')
   \<and> fetched (snd (handle_heygen_webhook webhook_env0 completed_event
            (snd (handle_heygen_webhook webhook_env0 completed_event world0))))
       = fetched (snd (handle_heygen_webhook webhook_env0 completed_event world0))
           @ [JStr ''https://cdn.example/v1.mp4'']
   \<and> length (assets (snd (handle_heygen_webhook webhook_env0 completed_event
            (snd (handle_heygen_webhook webhook_env0 completed_event world0)))))
       = length (assets (snd (handle_heygen_webhook webhook_env0 completed_event world0))) + 1"
proof -
  let ?url = "JStr ''https://cdn.example/v1.mp4''"
  let ?h1 = "handle_heygen_webhook webhook_env0 completed_event world0"
  let ?h2 = "handle_heygen_webhook webhook_env0 completed_event (snd ?h1)"
  have sig: "signature_accepted webhook_env0 completed_event"
    by code_simp
  have json: "wr_json completed_event = Some (JObj completed_payload)"
    by (simp add: completed_event_def event_def)
  have fields: "webhook_fields (JObj completed_payload) = Returns (JNull, JStr ''v1'', ''completed'')"
    by code_simp
  have st: "''completed'' = db_status_of (derive_status (we_repr webhook_env0) ''completed'' JNull)"
    by code_simp
  have url: "resolve_video_url (JObj completed_payload) = Returns ?url"
    by code_simp
  have r1: "fst ?h1 = Inr (Processed (JStr ''v1'') ''completed'')"
    by code_simp
  then have first: "?h1 = (Inr (Processed (JStr ''v1'') ''completed''), snd ?h1)"
    by (metis prod.collapse)
  have second: "?h2 = (fst ?h2, snd ?h2)"
    by simp
  have env: "\<not> st_demo (we_storage webhook_env0)"
    "st_transfer (we_storage webhook_env0) ?url (storage_calls world0) = TransferOk"
    "st_transfer (we_storage webhook_env0) ?url (storage_calls (snd ?h1)) = TransferOk"
    by (simp_all add: webhook_env0_def storage0_def transfer_ok_def)
  note inst = replayed_terminal_event [OF sig json fields _ st first second]
  have t: "truthy (JStr ''v1'')" "truthy ?url" by simp_all
  from inst [OF t(1)] have "fst ?h2 = Inr (Processed (JStr ''v1'') ''completed'')"
    by blast
  moreover from inst [OF t(1)] url t(2) env
  have "fetched (snd ?h2) = fetched (snd ?h1) @ [?url]"
    "length (assets (snd ?h2)) = length (assets (snd ?h1)) + 1"
    by blast+
  ultimately show ?thesis using sig t(1) url r1 by simp
qed

text \<open>
  C5 is right and the code misses a case: for a completion event without \<open>video_url\<close>
  and \<open>url\<close> whose \<open>result\<close> is \<open>null\<close> no URL can be resolved, but the lookup
  \<open>payload.get("result", {}).get("url")\<close> raises, the handler answers 500 and the job
  keeps its status instead of being marked \<open>failed\<close>.
\<close>

theorem completion_with_null_result_not_recorded:
  "fst (handle_heygen_webhook webhook_env0
          (event [(''video_id'', JStr ''v1''), (''status'', JStr ''completed''), (''result'', JNull)])
          world0)
     = Inl (HTTPException 500 ''AttributeError'')
   \<and> videos (snd (handle_heygen_webhook webhook_env0
          (event [(''video_id'', JStr ''v1''), (''status'', JStr ''completed''), (''result'', JNull)])
          world0)) (JStr ''v1'')
     = Some \<lparr>job_status = ''processing'', job_asset_id = None, job_error = None,
             job_source_url = None\<rparr>"
  by code_simp

text \<open>
  Where the lookup returns (the \<open>result\<close> field absent or an object) the handler does
  what C5 says: \<open>completed_delivery\<close> for an event with a URL, \<open>completed_without_url\<close>
  for one without.
\<close>

lemma resolve_video_url_returns:
  "map_of kvs ''result'' = None \<or> (\<exists>r. map_of kvs ''result'' = Some (JObj r)) \<Longrightarrow>
     \<exists>url. resolve_video_url (JObj kvs) = Returns url"
  by (auto simp: resolve_video_url_def obind_def dict_get_def split: option.splits)

lemma completed_without_url:
  assumes sig: "signature_accepted env req" and json: "wr_json req = Some payload"
    and fields: "webhook_fields payload = Returns (event_type, vid, s)" and vid: "truthy vid"
    and st: "db_status_of (derive_status (we_repr env) s event_type) = ''completed''"
    and url: "resolve_video_url payload = Returns url" "\<not> truthy url"
  shows "handle_heygen_webhook env req w
      = (Inr (Processed vid ''completed''), mark_failed vid None None w)
     \<and> (\<forall>job. videos w vid = Some job \<longrightarrow>
           videos (mark_failed vid None None w) vid
             = Some (job\<lparr>job_status := ''failed'', job_error := None, job_source_url := None\<rparr>))"
  using handle_processed [OF sig json fields vid, unfolded st] reconcile_no_url [OF url]
  by (simp add: mark_failed_def update_video_def)

lemma mirrored_location_nonempty:
  "''s3://'' @ st_bucket senv @ ''/'' @ generate_key senv kind ext n \<noteq> []"
  by simp

section \<open>Campaign assembly\<close>

lemma only_run_stmt: "assembly_step s \<Longrightarrow> only_assembly_steps (run_stmt s stmt)"
  by (auto simp: only_assembly_steps_def run_stmt_def split: outcome.splits prod.splits)

lemma only_treturn: "only_assembly_steps (treturn x)"
  by (simp add: only_assembly_steps_def treturn_def)

lemma only_tbind:
  assumes "only_assembly_steps m" "\<And>x. only_assembly_steps (f x)"
  shows "only_assembly_steps (tbind m f)"
  unfolding only_assembly_steps_def
proof
  fix rs
  show "case fst (tbind m f rs) of Inl (StepFailed s msg) \<Rightarrow> assembly_step s | Inr x \<Rightarrow> True"
  proof (cases "m rs")
    case (Pair res rs')
    show ?thesis
    proof (cases res)
      case (Inl e)
      with Pair assms(1) show ?thesis
        by (auto simp: only_assembly_steps_def tbind_def dest: spec [of _ rs])
    next
      case (Inr x)
      with Pair assms(2) [of x] show ?thesis
        by (auto simp: only_assembly_steps_def tbind_def dest: spec [of _ rs'])
    qed
  qed
qed

lemma only_attach_platforms: "only_assembly_steps (attach_platforms dl campaign_id ps)"
  by (induction ps) (auto intro!: only_tbind only_run_stmt only_treturn simp: assembly_step_def)

lemma only_twitter_content:
  "only_assembly_steps (twitter_content dl request campaign_id script_text cta ps)"
  by (auto simp: twitter_content_def Let_def assembly_step_def
           intro!: only_tbind only_run_stmt only_treturn)

lemma only_shorts_content:
  "only_assembly_steps (shorts_content dl request campaign_id script_text cta ps)"
  by (auto simp: shorts_content_def Let_def assembly_step_def
           intro!: only_tbind only_run_stmt only_treturn)

lemma only_assemble:
  "only_assembly_steps
     (assemble dl request offer_id offer_title cta persona_title pain_point_text script_text)"
  unfolding assemble_def Let_def
  by (intro only_tbind only_run_stmt only_treturn only_attach_platforms only_twitter_content
        only_shorts_content)
     (simp_all add: assembly_step_def)

lemma in_transaction_body_raises:
  "body db = (Inl e, rs) \<Longrightarrow>
     in_transaction dl body db = (Inl e, \<lparr>committed = db, working = db\<rparr>)"
  by (simp add: in_transaction_def rollback_def close_conn_def)

lemma in_transaction_failure:
  "in_transaction dl body db = (Inl e, conn) \<Longrightarrow> e \<noteq> StepFailed CursorClose ''cursor'' \<Longrightarrow>
     conn = \<lparr>committed = db, working = db\<rparr>"
  by (auto simp: in_transaction_def rollback_def close_conn_def commit_def Let_def
           split: prod.splits sum.splits if_splits)

lemma in_transaction_cursor:
  "in_transaction dl body db = (Inl e, conn) \<Longrightarrow> cursor_close_ok dl \<Longrightarrow>
     committed conn = db"
  by (auto simp: in_transaction_def rollback_def close_conn_def commit_def Let_def
           split: prod.splits sum.splits if_splits)

lemma in_transaction_success:
  "in_transaction dl body db = (Inr x, conn) \<Longrightarrow>
     body db = (Inr x, committed conn) \<and> working conn = committed conn"
  by (auto simp: in_transaction_def rollback_def close_conn_def commit_def Let_def
           split: prod.splits sum.splits if_splits)

text \<open>
  C4: campaign assembly is all-or-nothing. When a statement of the assembly raises (the
  persona, pain-point or script insert, the campaign creation or update, a platform
  attachment, or the creation of a content row), the step is one before the commit, the
  transaction is rolled back, and the connection is left with the database as it was when
  the transaction began: no row of that attempt is observable. For the route it means
  that a failed request, the cursor closing normally, leaves the database as the resolved
  offer left it.
\<close>

theorem assembly_all_or_nothing:
  "(assemble dl request offer_id offer_title cta persona_title pain_point_text script_text db
      = (Inl (StepFailed s msg), rs) \<longrightarrow>
      assembly_step s
      \<and> in_transaction dl
          (assemble dl request offer_id offer_title cta persona_title pain_point_text script_text) db
          = (Inl (StepFailed s msg), \<lparr>committed = db, working = db\<rparr>))
   \<and> (resolve_offer dl request db0 = (Inr offer, db) \<and> cursor_close_ok dl
        \<and> create_auto_campaign dl request db0 = (Inl ex, db') \<longrightarrow> db' = db)"
proof (intro conjI impI)
  assume a: "assemble dl request offer_id offer_title cta persona_title pain_point_text script_text db
      = (Inl (StepFailed s msg), rs)"
  from only_assemble [of dl request offer_id offer_title cta persona_title pain_point_text script_text]
  show "assembly_step s"
    using a by (auto simp: only_assembly_steps_def dest: spec [of _ db])
  from a show "in_transaction dl
          (assemble dl request offer_id offer_title cta persona_title pain_point_text script_text) db
          = (Inl (StepFailed s msg), \<lparr>committed = db, working = db\<rparr>)"
    by (rule in_transaction_body_raises)
next
  assume b: "resolve_offer dl request db0 = (Inr offer, db) \<and> cursor_close_ok dl
        \<and> create_auto_campaign dl request db0 = (Inl ex, db')"
  obtain oid title descr cta' where o: "offer = (oid, title, descr, cta')"
    by (cases offer)
  from b o show "db' = db"
    by (auto simp: create_auto_campaign_def Let_def
             split: prod.splits sum.splits txn_error.splits dest: in_transaction_cursor)
qed

theorem assembly_all_or_nothing_witness:
  "fst (assemble (writing_layer [VideoContent]) request1 1 ''Offer A'' (Some ''http://x'')
          ''general'' ''pain'' ''script'' offers0)
     = Inl (StepFailed VideoContent ''video'')
   \<and> map table_of (snd (assemble (writing_layer [VideoContent]) request1 1 ''Offer A''
          (Some ''http://x'') ''general'' ''pain'' ''script'' offers0))
     = [''offers'', ''personas'', ''pain_points'', ''scripts'', ''campaigns'',
        ''campaign_platforms'', ''campaign_platforms'', ''content'', ''content'']
   \<and> assembly_step VideoContent
   \<and> in_transaction (writing_layer [VideoContent])
        (assemble (writing_layer [VideoContent]) request1 1 ''Offer A'' (Some ''http://x'')
           ''general'' ''pain'' ''script'') offers0
     = (Inl (StepFailed VideoContent ''video''), \<lparr>committed = offers0, working = offers0\<rparr>)
   \<and> resolve_offer (writing_layer [VideoContent]) request1 offers0
     = (Inr (1, ''Offer A'', ''A thing'', Some ''http://x''), offers0)
   \<and> cursor_close_ok (writing_layer [VideoContent])
   \<and> fst (create_auto_campaign (writing_layer [VideoContent]) request1 offers0)
     = Inl (HTTPException 500 ''video'')
   \<and> snd (create_auto_campaign (writing_layer [VideoContent]) request1 offers0) = offers0"
proof -
  let ?dl = "writing_layer [VideoContent]"
  let ?body = "assemble ?dl request1 1 ''Offer A'' (Some ''http://x'') ''general'' ''pain'' ''script''"
  have f: "fst (?body offers0) = Inl (StepFailed VideoContent ''video'')"
    by code_simp
  have t: "map table_of (snd (?body offers0))
     = [''offers'', ''personas'', ''pain_points'', ''scripts'', ''campaigns'',
        ''campaign_platforms'', ''campaign_platforms'', ''content'', ''content'']"
    by code_simp
  have r: "resolve_offer ?dl request1 offers0
     = (Inr (1, ''Offer A'', ''A thing'', Some ''http://x''), offers0)"
    by code_simp
  have c: "cursor_close_ok ?dl"
    by code_simp
  have e: "fst (create_auto_campaign ?dl request1 offers0) = Inl (HTTPException 500 ''video'')"
    by code_simp
  from f have a: "?body offers0 = (Inl (StepFailed VideoContent ''video''), snd (?body offers0))"
    by (metis prod.collapse)
  from e have b: "create_auto_campaign ?dl request1 offers0
      = (Inl (HTTPException 500 ''video''), snd (create_auto_campaign ?dl request1 offers0))"
    by (metis prod.collapse)
  note inst = assembly_all_or_nothing
      [where dl = ?dl and request = request1 and offer_id = 1 and offer_title = "''Offer A''"
         and cta = "Some ''http://x''" and persona_title = "''general''"
         and pain_point_text = "''pain''" and script_text = "''script''" and db = offers0
         and s = VideoContent and msg = "''video''" and rs = "snd (?body offers0)"
         and ?db0.0 = offers0 and offer = "(1, ''Offer A'', ''A thing'', Some ''http://x'')"
         and ex = "HTTPException 500 ''video''"
         and db' = "snd (create_auto_campaign ?dl request1 offers0)"]
  from inst a have "assembly_step VideoContent"
    "in_transaction ?dl ?body offers0
       = (Inl (StepFailed VideoContent ''video''), \<lparr>committed = offers0, working = offers0\<rparr>)"
    by blast+
  moreover from inst r c b have "snd (create_auto_campaign ?dl request1 offers0) = offers0"
    by blast
  ultimately show ?thesis using f t r c e by simp
qed

text \<open>
  The boundary of the claim: an exception of \<open>cur.close()\<close>, which is not a step of the
  assembly and comes after \<open>conn.commit()\<close>, is reported as a failure while the rows stay.
\<close>

lemma failure_after_commit_keeps_rows:
  "fst (create_auto_campaign (writing_layer [CursorClose]) request1 offers0)
     = Inl (HTTPException 500 ''cursor'')
   \<and> map table_of (snd (create_auto_campaign (writing_layer [CursorClose]) request1 offers0))
     = [''offers'', ''personas'', ''pain_points'', ''scripts'', ''campaigns'',
        ''campaign_platforms'', ''campaign_platforms'', ''content'', ''content'', ''content'']"
  by code_simp

text \<open>With the helpers of the imported service module the same holds a fortiori.\<close>

lemma mock_layer_rolls_back:
  "in_transaction (mock_layer (writing_layer [ScriptInsert]))
     (assemble (mock_layer (writing_layer [ScriptInsert])) request1 1 ''Offer A'' (Some ''http://x'')
        ''general'' ''pain'' ''script'') offers0
     = (Inl (StepFailed ScriptInsert ''script''), \<lparr>committed = offers0, working = offers0\<rparr>)"
  by code_simp

end
